theory Spec2Isabelle
  imports Main "HOL-Library.Word"
begin

section \<open>The process interrupt station (utilities.cpp)\<close>

text \<open>
  The translation unit keeps its state in file-level statics: \<open>g_signal_status\<close>,
  \<open>g_sigint_guard_cond_handle\<close>, \<open>g_interrupt_condition_variable\<close>,
  \<open>g_is_interrupted\<close> and \<open>old_action\<close>. They become the fields of one record that every
  function takes and returns. The variant modelled is the one with \<open>HAS_SIGACTION\<close> and
  \<open>_GNU_SOURCE\<close> defined.

  Calls that leave the library (rcl, the C library, a previously installed signal handler)
  are not part of these sources. What such a call returns is an argument of the function
  that makes it, and the fact that the call was made is recorded in the state: the number of
  \<open>rcl_trigger_guard_condition\<close> calls on the global handle, the number of \<open>notify_all\<close>
  calls on the condition variable, the lines written to the console, and the invocations of
  the chained handler.
\<close>

type_synonym rcl_ret_t = int

definition RCL_RET_OK :: rcl_ret_t where
  "RCL_RET_OK = 0"

definition SIGINT :: int where
  "SIGINT = 2"

datatype error = runtime_error (what: string)

text \<open>A handler slot of \<open>struct sigaction\<close>: a null pointer, one of the two special
  values, or the address of some function.\<close>

datatype sighandler = NULL | SIG_DFL | SIG_IGN | handler_at nat

record sigaction_t =
  SA_SIGINFO_set :: bool
  sa_sigaction :: sighandler
  sa_handler :: sighandler

text \<open>What an rcl call hands back: its return code, and the text that
  \<open>rcl_get_error_string_safe\<close> and \<open>rmw_get_error_string_safe\<close> would give afterwards.\<close>

record rcl_outcome =
  ret :: rcl_ret_t
  rcl_error_string :: string
  rmw_error_string :: string

datatype console =
  stdout_signal_handler int
  | stderr_failed_to_trigger string

record station =
  g_signal_status :: int
  g_is_interrupted :: bool
  guard_cond_triggers :: nat
  condition_variable_notifications :: nat
  old_action :: sigaction_t
  chained_calls :: "(sighandler \<times> int) list"
  printed :: "console list"

text \<open>The state at program start, as the static initialisers give it.\<close>

definition station0 :: station where
  "station0 =
     \<lparr> g_signal_status = 0, g_is_interrupted = False, guard_cond_triggers = 0,
       condition_variable_notifications = 0,
       old_action = \<lparr> SA_SIGINFO_set = False, sa_sigaction = NULL, sa_handler = NULL \<rparr>,
       chained_calls = [], printed = [] \<rparr>"

text \<open>The chaining part of \<open>signal_handler\<close> (lines 62 to 77).\<close>

definition call_old_action :: "int \<Rightarrow> station \<Rightarrow> station" where
  "call_old_action signal_value s =
     (if SA_SIGINFO_set (old_action s) then
        (if sa_sigaction (old_action s) \<noteq> NULL
         then s\<lparr>chained_calls := chained_calls s @ [(sa_sigaction (old_action s), signal_value)]\<rparr>
         else s)
      else
        (if sa_handler (old_action s) \<noteq> NULL \<and>
            sa_handler (old_action s) \<noteq> SIG_DFL \<and>
            sa_handler (old_action s) \<noteq> SIG_IGN
         then s\<lparr>chained_calls := chained_calls s @ [(sa_handler (old_action s), signal_value)]\<rparr>
         else s))"

definition signal_handler :: "rcl_outcome \<Rightarrow> int \<Rightarrow> station \<Rightarrow> station" where
  "signal_handler trigger signal_value s =
     (let s1 = s\<lparr>printed := printed s @ [stdout_signal_handler signal_value]\<rparr>;
          s2 = call_old_action signal_value s1;
          s3 = s2\<lparr>g_signal_status := signal_value\<rparr>;
          s4 = s3\<lparr>guard_cond_triggers := Suc (guard_cond_triggers s3)\<rparr>;
          s5 = (if ret trigger \<noteq> RCL_RET_OK
                then s4\<lparr>printed := printed s4 @ [stderr_failed_to_trigger (rcl_error_string trigger)]\<rparr>
                else s4);
          s6 = s5\<lparr>g_is_interrupted := True\<rparr>
      in s6\<lparr>condition_variable_notifications := Suc (condition_variable_notifications s6)\<rparr>)"

text \<open>What the environment answers during \<open>init\<close>: the result of \<open>rcl_init\<close>, the result
  of \<open>sigaction\<close> with the action that was installed before and, for a failure, the texts of
  \<open>std::to_string(errno)\<close> and of the error string, and the result of
  \<open>rcl_guard_condition_init\<close>.\<close>

record init_env =
  rcl_init_outcome :: rcl_outcome
  sigaction_ret :: int
  previous_action :: sigaction_t
  errno_text :: string
  error_string :: string
  guard_condition_init_outcome :: rcl_outcome

definition init :: "init_env \<Rightarrow> station \<Rightarrow> (error + unit) \<times> station" where
  "init env s =
     (let s1 = s\<lparr>g_is_interrupted := False\<rparr> in
      if ret (rcl_init_outcome env) \<noteq> RCL_RET_OK then
        (Inl (runtime_error (''failed to initialize rmw implementation: '' @
                rcl_error_string (rcl_init_outcome env))), s1)
      else if sigaction_ret env = - 1 then
        (Inl (runtime_error ((''Failed to set SIGINT signal handler: ('' @ errno_text env @ '')'') @
                error_string env)), s1)
      else
        (let s2 = s1\<lparr>old_action := previous_action env\<rparr> in
         if ret (guard_condition_init_outcome env) \<noteq> RCL_RET_OK then
           (Inl (runtime_error (''Couldn't initialize guard condition: '' @
                   rcl_error_string (guard_condition_init_outcome env))), s2)
         else (Inr (), s2)))"

definition ok :: "station \<Rightarrow> bool" where
  "ok s = (g_signal_status s = 0)"

definition shutdown :: "rcl_outcome \<Rightarrow> station \<Rightarrow> station" where
  "shutdown trigger s =
     (let s1 = s\<lparr>g_signal_status := SIGINT\<rparr>;
          s2 = s1\<lparr>guard_cond_triggers := Suc (guard_cond_triggers s1)\<rparr>;
          s3 = (if ret trigger \<noteq> RCL_RET_OK
                then s2\<lparr>printed := printed s2 @ [stderr_failed_to_trigger (rmw_error_string trigger)]\<rparr>
                else s2);
          s4 = s3\<lparr>g_is_interrupted := True\<rparr>
      in s4\<lparr>condition_variable_notifications := Suc (condition_variable_notifications s4)\<rparr>)"

text \<open>
  The operations that change the station, as another thread (or the signal dispatcher) can
  run them: \<open>init\<close>, \<open>shutdown\<close>, and the delivery of SIGINT, the only signal the handler is
  installed for. \<open>ok\<close> and \<open>sleep_for\<close> only read the station.
\<close>

datatype station_op = Init init_env | Shutdown rcl_outcome | Sigint rcl_outcome

fun step :: "station_op \<Rightarrow> station \<Rightarrow> station" where
  "step (Init env) s = snd (init env s)"
| "step (Shutdown trigger) s = shutdown trigger s"
| "step (Sigint trigger) s = signal_handler trigger SIGINT s"

fun run :: "station_op list \<Rightarrow> station \<Rightarrow> station" where
  "run [] s = s"
| "run (x # xs) s = run xs (step x s)"

text \<open>The operations that signal the station, and those that call \<open>init\<close>.\<close>

fun signals :: "station_op \<Rightarrow> bool" where
  "signals (Init env) = False"
| "signals (Shutdown trigger) = True"
| "signals (Sigint trigger) = True"

fun is_Init :: "station_op \<Rightarrow> bool" where
  "is_Init (Init env) = True"
| "is_Init (Shutdown trigger) = False"
| "is_Init (Sigint trigger) = False"

subsection \<open>Timed sleep\<close>

text \<open>
  \<open>sleep_for\<close> blocks in \<open>wait_for\<close> on the condition variable and reads the steady clock
  before and after. One return of \<open>wait_for\<close> is a \<open>wake\<close>: the time the clock measured
  across the wait (never negative, the clock being steady), and the station operations
  other threads ran while this one was blocked. \<open>wait_for\<close> may return early, late or
  for no reason, so the measured time is not tied to the time asked for. The list of wakes
  is the environment of a call; when it is used up the thread is still blocked and the call
  has not returned.

  \<open>std::chrono::nanoseconds\<close> counts in a signed 64-bit integer. A subtraction whose
  result leaves that range is undefined in the source, and is a result of its own here.
\<close>

definition ns_min :: int where
  "ns_min = - (2 ^ 63)"

definition ns_max :: int where
  "ns_max = 2 ^ 63 - 1"

record wake =
  elapsed :: nat
  meanwhile :: "station_op list"

datatype sleep_result = returned bool | still_waiting | time_left_overflow

fun sleep_for :: "wake list \<Rightarrow> int \<Rightarrow> station \<Rightarrow> sleep_result \<times> station" where
  "sleep_for [] nanoseconds s = (still_waiting, s)"
| "sleep_for (w # ws) nanoseconds s =
     (let s' = run (meanwhile w) s;
          time_left = nanoseconds - int (elapsed w)
      in if time_left < ns_min then (time_left_overflow, s')
         else if time_left > 0 \<and> \<not> g_is_interrupted s' then sleep_for ws time_left s'
         else (returned (\<not> g_is_interrupted s'), s'))"

text \<open>Shorthands for the statements about \<open>sleep_for\<close>: a wake during which nobody
  signalled the station, and the time a list of wakes adds up to.\<close>

definition quiet :: "wake \<Rightarrow> bool" where
  "quiet w = list_all (\<lambda>x. \<not> signals x) (meanwhile w)"

definition total_elapsed :: "wake list \<Rightarrow> int" where
  "total_elapsed ws = sum_list (map (\<lambda>w. int (elapsed w)) ws)"

text \<open>Environment answers used in the evaluated examples: an rcl call that succeeds, an
  \<open>init\<close> in which every call succeeds, and an \<open>init\<close> whose \<open>rcl_init\<close> fails.\<close>

definition rcl_ok :: rcl_outcome where
  "rcl_ok = \<lparr> ret = 0, rcl_error_string = [], rmw_error_string = [] \<rparr>"

definition init_env_ok :: init_env where
  "init_env_ok =
     \<lparr> rcl_init_outcome = rcl_ok, sigaction_ret = 0,
       previous_action = \<lparr> SA_SIGINFO_set = False, sa_sigaction = NULL, sa_handler = SIG_DFL \<rparr>,
       errno_text = [], error_string = [], guard_condition_init_outcome = rcl_ok \<rparr>"

definition init_env_rcl_fails :: init_env where
  "init_env_rcl_fails =
     init_env_ok\<lparr>rcl_init_outcome :=
       \<lparr> ret = 1, rcl_error_string = ''already initialized'', rmw_error_string = [] \<rparr>\<rparr>"

section \<open>Entity creation on a node (node_impl.hpp)\<close>

text \<open>
  The member templates of \<open>Node\<close> read and change the node, the callback groups they are
  handed, the middleware and the context's intra-process manager; all of these are fields of
  one \<open>world\<close> record. A pointer is either null (\<open>None\<close>) or an address, and
  \<open>make_shared\<close> hands out addresses from a counter, so that two objects never share one.
  A template parameter (\<open>MessageT\<close>, \<open>ServiceT\<close>) is the name of the C++ type. A thrown
  \<open>std::runtime_error\<close> is the result \<open>Inl\<close>, returned together with the world as the
  statements before the \<open>throw\<close> left it. Destructors are not modelled. A data
  member is written without the underscore that ends its name in the source
  (\<open>node_handle\<close> for \<open>node_handle_\<close>).
\<close>

type_synonym addr = nat
type_synonym handle = "nat option"
type_synonym group_ref = nat
type_synonym ipm_ref = nat
type_synonym cpp_type = string

datatype type_info = typeid (name: cpp_type)

datatype type_support = message_type_support cpp_type | service_type_support cpp_type

definition get_message_type_support_handle :: "cpp_type \<Rightarrow> type_support" where
  "get_message_type_support_handle MessageT = message_type_support MessageT"

definition get_service_type_support_handle :: "cpp_type \<Rightarrow> type_support" where
  "get_service_type_support_handle ServiceT = service_type_support ServiceT"

record rmw_qos_profile_t =
  depth :: nat

subsection \<open>The middleware\<close>

text \<open>
  The rmw functions are outside the repository. The middleware is a log of the create calls
  made so far and a function that answers a call, given that log: \<open>Inr h\<close> is the handle
  \<open>h\<close>, \<open>Inl reason\<close> is a null pointer with \<open>reason\<close> left as the error string.
\<close>

datatype rmw_call =
  rmw_create_publisher handle type_support string rmw_qos_profile_t
  | rmw_create_subscription handle type_support string rmw_qos_profile_t bool
  | rmw_create_client handle type_support string
  | rmw_create_service handle type_support string

record middleware =
  calls :: "rmw_call list"
  answer :: "rmw_call list \<Rightarrow> rmw_call \<Rightarrow> string + nat"
  error_state :: string

definition rmw_create :: "rmw_call \<Rightarrow> middleware \<Rightarrow> handle \<times> middleware" where
  "rmw_create c m =
     (case answer m (calls m) c of
        Inl reason \<Rightarrow> (None, m\<lparr>calls := calls m @ [c], error_state := reason\<rparr>)
      | Inr h \<Rightarrow> (Some h, m\<lparr>calls := calls m @ [c]\<rparr>))"

definition rmw_get_error_string_safe :: "middleware \<Rightarrow> string" where
  "rmw_get_error_string_safe m = error_state m"

subsection \<open>Entities\<close>

text \<open>
  Modelled from the spec: the entity classes, their constructors and
  \<open>create_service_internal\<close> (publisher.hpp, subscription.hpp, client.hpp, service.hpp
  and node.hpp are missing). A create "constructs the entity object owning that handle":
  each record holds what the constructor call in node_impl.hpp passes in, and what
  \<open>setup_intra_process\<close> is given afterwards (\<open>None\<close> when it was never called). A user
  callback is a number, since nothing here looks into it. A lambda is kept as its captured
  variables: the weak pointer to the manager and \<open>MessageT\<close>.
\<close>

datatype store_hook = shared_publish_callback_closure ipm_ref cpp_type
datatype take_hook = get_message_callback_closure ipm_ref cpp_type
datatype matches_hook = matches_any_publisher_callback_closure ipm_ref

datatype MessageMemoryStrategy = create_default cpp_type | strategy_at addr

record Publisher =
  publisher_node_handle :: handle
  pub_handle :: handle
  publisher_topic :: string
  queue_size :: nat
  publisher_intra_process :: "(64 word \<times> store_hook \<times> handle) option"

record Subscription =
  subscription_node_handle :: handle
  sub_handle :: handle
  subscription_topic :: string
  ignore_local_publications :: bool
  any_callback :: nat
  memory_strategy :: MessageMemoryStrategy
  subscription_intra_process :: "(64 word \<times> handle \<times> take_hook \<times> matches_hook) option"

record Client =
  client_node_handle :: handle
  cli_handle :: handle
  client_service_name :: string

record Service =
  service_node_handle :: handle
  srv_handle :: handle
  srv_name :: string
  service_callback :: nat

subsection \<open>Callback groups\<close>

datatype CallbackGroupType = MutuallyExclusive | Reentrant

record CallbackGroup =
  group_type :: CallbackGroupType
  subscription_ptrs :: "addr list"
  timer_ptrs :: "addr list"
  service_ptrs :: "addr list"
  client_ptrs :: "addr list"
  can_be_taken_from :: bool

text \<open>Modelled from the spec: the bodies of \<open>CallbackGroup::add_subscription\<close>,
  \<open>add_service\<close> and \<open>add_client\<close> (callback_group.cpp is missing; the header declares
  them and the vectors). A group "owns weak references to subscriptions and timers, and
  strong references to services and clients": each function appends the pointer to the
  vector of its kind.\<close>

definition add_subscription :: "addr \<Rightarrow> CallbackGroup \<Rightarrow> CallbackGroup" where
  "add_subscription subscription_ptr g =
     g\<lparr>subscription_ptrs := subscription_ptrs g @ [subscription_ptr]\<rparr>"

definition add_service :: "addr \<Rightarrow> CallbackGroup \<Rightarrow> CallbackGroup" where
  "add_service service_ptr g = g\<lparr>service_ptrs := service_ptrs g @ [service_ptr]\<rparr>"

definition add_client :: "addr \<Rightarrow> CallbackGroup \<Rightarrow> CallbackGroup" where
  "add_client client_ptr g = g\<lparr>client_ptrs := client_ptrs g @ [client_ptr]\<rparr>"

definition member_ptrs :: "CallbackGroup \<Rightarrow> addr list" where
  "member_ptrs g = subscription_ptrs g @ timer_ptrs g @ service_ptrs g @ client_ptrs g"

subsection \<open>The node and the world around it\<close>

record Node =
  node_handle :: handle
  use_intra_process_comms :: bool
  ipm_ts :: type_support
  default_callback_group :: group_ref
  callback_groups :: "group_ref list"
  number_of_subscriptions :: "64 word"
  number_of_services :: "64 word"
  number_of_clients :: "64 word"

text \<open>Modelled from the spec: \<open>Node::group_in_node\<close> (node.cpp is missing). "The supplied
  group must already be registered with this node": the group is one of the node's
  \<open>callback_groups\<close>.\<close>

definition group_in_node :: "Node \<Rightarrow> group_ref \<Rightarrow> bool" where
  "group_in_node n grp = (grp \<in> set (callback_groups n))"

text \<open>
  \<open>IntraProcessManager\<close> is declared in intra_process_manager.hpp, which is not among the
  sources. Its state is a type parameter and the member functions that node_impl.hpp calls
  are the fields of an interface record, so that every statement below holds for any
  manager. A member function returns the manager's new state, and \<open>Inl\<close> when it throws.
\<close>

record 'm ipm_interface =
  ipm_new :: 'm
  ipm_add_publisher :: "cpp_type \<Rightarrow> addr \<times> Publisher \<Rightarrow> 'm \<Rightarrow> (error + 64 word) \<times> 'm"
  ipm_add_subscription :: "addr \<times> Subscription \<Rightarrow> 'm \<Rightarrow> (error + 64 word) \<times> 'm"
  ipm_store_intra_process_message ::
    "cpp_type \<Rightarrow> 64 word \<Rightarrow> addr \<Rightarrow> 'm \<Rightarrow> (error + 64 word) \<times> 'm"
  ipm_take_intra_process_message ::
    "cpp_type \<Rightarrow> 64 word \<Rightarrow> 64 word \<Rightarrow> 64 word \<Rightarrow> 'm \<Rightarrow> (error + addr option) \<times> 'm"
  ipm_matches_any_publishers :: "nat \<Rightarrow> 'm \<Rightarrow> error + bool"

text \<open>The context owns at most one manager, kept with its address; a manager that the
  context no longer owns is destroyed.\<close>

record 'm world =
  rmw :: middleware
  node :: Node
  groups :: "group_ref \<Rightarrow> CallbackGroup"
  sub_contexts :: "(ipm_ref \<times> 'm) option"
  next_addr :: addr

definition make_shared :: "'m world \<Rightarrow> addr \<times> 'm world" where
  "make_shared w = (next_addr w, w\<lparr>next_addr := Suc (next_addr w)\<rparr>)"

text \<open>Modelled from the spec: \<open>Context::get_sub_context\<close> (context.hpp is missing). The
  manager is a "per-process registry": the context hands out the manager it owns and
  creates one on first use.\<close>

definition get_sub_context :: "'m ipm_interface \<Rightarrow> 'm world \<Rightarrow> (ipm_ref \<times> 'm) \<times> 'm world" where
  "get_sub_context I w =
     (case sub_contexts w of
        Some (r, m) \<Rightarrow> ((r, m), w)
      | None \<Rightarrow>
          (case make_shared w of
             (r, w') \<Rightarrow> ((r, ipm_new I), w'\<lparr>sub_contexts := Some (r, ipm_new I)\<rparr>)))"

text \<open>\<open>weak_ipm.lock()\<close>: the manager, if it is still the one the context owns.\<close>

definition lock :: "ipm_ref \<Rightarrow> 'm world \<Rightarrow> 'm option" where
  "lock weak_ipm w =
     (case sub_contexts w of
        None \<Rightarrow> None
      | Some (r, m) \<Rightarrow> if r = weak_ipm then Some m else None)"

subsection \<open>The intra-process callbacks\<close>

text \<open>The three lambdas that node_impl.hpp builds. The first arguments are what the lambda
  captured, the next ones its parameters. A callback that throws leaves the world as it
  found it.\<close>

definition shared_publish_callback ::
  "'m ipm_interface \<Rightarrow> ipm_ref \<Rightarrow> cpp_type \<Rightarrow> 64 word \<Rightarrow> addr option \<Rightarrow> type_info \<Rightarrow>
   'm world \<Rightarrow> (error + 64 word) \<times> 'm world" where
  "shared_publish_callback I weak_ipm MessageT publisher_id msg type_info w =
     (case lock weak_ipm w of
        None \<Rightarrow>
          (Inl (runtime_error
             ''intra process publish called after destruction of intra process manager''), w)
      | Some ipm \<Rightarrow>
          (case msg of
             None \<Rightarrow> (Inl (runtime_error ''cannot publisher msg which is a null pointer''), w)
           | Some typed_message_ptr \<Rightarrow>
               (let message_type_info = typeid MessageT in
                if message_type_info \<noteq> type_info then
                  (Inl (runtime_error
                     (''published type '' @ [CHR 0x27] @ name type_info @ [CHR 0x27] @
                      '' is incompatible from the publisher type '' @ [CHR 0x27] @
                      name message_type_info @ [CHR 0x27])), w)
                else
                  (case ipm_store_intra_process_message I MessageT publisher_id
                          typed_message_ptr ipm of
                     (message_seq, ipm') \<Rightarrow>
                       (message_seq, w\<lparr>sub_contexts := Some (weak_ipm, ipm')\<rparr>)))))"

definition get_message_callback ::
  "'m ipm_interface \<Rightarrow> ipm_ref \<Rightarrow> cpp_type \<Rightarrow> 64 word \<Rightarrow> 64 word \<Rightarrow> 64 word \<Rightarrow>
   'm world \<Rightarrow> (error + addr option) \<times> 'm world" where
  "get_message_callback I weak_ipm MessageT publisher_id message_sequence subscription_id w =
     (case lock weak_ipm w of
        None \<Rightarrow>
          (Inl (runtime_error
             ''intra process take called after destruction of intra process manager''), w)
      | Some ipm \<Rightarrow>
          (case ipm_take_intra_process_message I MessageT publisher_id message_sequence
                  subscription_id ipm of
             (message, ipm') \<Rightarrow> (message, w\<lparr>sub_contexts := Some (weak_ipm, ipm')\<rparr>)))"

definition matches_any_publisher_callback ::
  "'m ipm_interface \<Rightarrow> ipm_ref \<Rightarrow> nat \<Rightarrow> 'm world \<Rightarrow> (error + bool) \<times> 'm world" where
  "matches_any_publisher_callback I weak_ipm sender_gid w =
     (case lock weak_ipm w of
        None \<Rightarrow>
          (Inl (runtime_error
             ''intra process publisher check called after destruction of intra process manager''),
           w)
      | Some ipm \<Rightarrow> (ipm_matches_any_publishers I sender_gid ipm, w))"

text \<open>Calling a lambda that an entity holds.\<close>

fun call_store_hook ::
  "'m ipm_interface \<Rightarrow> store_hook \<Rightarrow> 64 word \<Rightarrow> addr option \<Rightarrow> type_info \<Rightarrow>
   'm world \<Rightarrow> (error + 64 word) \<times> 'm world" where
  "call_store_hook I (shared_publish_callback_closure weak_ipm MessageT) =
     shared_publish_callback I weak_ipm MessageT"

fun call_take_hook ::
  "'m ipm_interface \<Rightarrow> take_hook \<Rightarrow> 64 word \<Rightarrow> 64 word \<Rightarrow> 64 word \<Rightarrow>
   'm world \<Rightarrow> (error + addr option) \<times> 'm world" where
  "call_take_hook I (get_message_callback_closure weak_ipm MessageT) =
     get_message_callback I weak_ipm MessageT"

fun call_matches_hook ::
  "'m ipm_interface \<Rightarrow> matches_hook \<Rightarrow> nat \<Rightarrow> 'm world \<Rightarrow> (error + bool) \<times> 'm world" where
  "call_matches_hook I (matches_any_publisher_callback_closure weak_ipm) =
     matches_any_publisher_callback I weak_ipm"

subsection \<open>The create operations\<close>

definition create_publisher ::
  "'m ipm_interface \<Rightarrow> cpp_type \<Rightarrow> string \<Rightarrow> rmw_qos_profile_t \<Rightarrow> 'm world \<Rightarrow>
   (error + addr \<times> Publisher) \<times> 'm world" where
  "create_publisher I MessageT topic_name qos_profile w =
     (let type_support_handle = get_message_type_support_handle MessageT in
      case rmw_create (rmw_create_publisher (node_handle (node w)) type_support_handle
                         topic_name qos_profile) (rmw w) of
        (publisher_handle, m1) \<Rightarrow>
          (let w1 = w\<lparr>rmw := m1\<rparr> in
           if publisher_handle = None then
             (Inl (runtime_error
                (''could not create publisher: '' @ rmw_get_error_string_safe m1)), w1)
           else
             (case make_shared w1 of
                (a, w2) \<Rightarrow>
                  (let publisher =
                         \<lparr> publisher_node_handle = node_handle (node w2),
                           pub_handle = publisher_handle,
                           publisher_topic = topic_name,
                           queue_size = depth qos_profile,
                           publisher_intra_process = None \<rparr> in
                   if use_intra_process_comms (node w2) then
                     (case rmw_create (rmw_create_publisher (node_handle (node w2))
                                         (ipm_ts (node w2)) (topic_name @ ''__intra'')
                                         qos_profile) (rmw w2) of
                        (intra_process_publisher_handle, m2) \<Rightarrow>
                          (let w3 = w2\<lparr>rmw := m2\<rparr> in
                           if intra_process_publisher_handle = None then
                             (Inl (runtime_error
                                (''could not create intra process publisher: '' @
                                 rmw_get_error_string_safe m2)), w3)
                           else
                             (case get_sub_context I w3 of
                                ((weak_ipm, intra_process_manager), w4) \<Rightarrow>
                                  (case ipm_add_publisher I MessageT (a, publisher)
                                          intra_process_manager of
                                     (Inl e, ipm') \<Rightarrow>
                                       (Inl e, w4\<lparr>sub_contexts := Some (weak_ipm, ipm')\<rparr>)
                                   | (Inr intra_process_publisher_id, ipm') \<Rightarrow>
                                       (Inr (a, publisher\<lparr>publisher_intra_process :=
                                               Some (intra_process_publisher_id,
                                                     shared_publish_callback_closure weak_ipm MessageT,
                                                     intra_process_publisher_handle)\<rparr>),
                                        w4\<lparr>sub_contexts := Some (weak_ipm, ipm')\<rparr>)))))
                   else (Inr (a, publisher), w2)))))"

text \<open>The intra-process part of \<open>create_subscription_internal\<close> (lines 193 to 236). The
  test after the second \<open>rmw_create_subscription\<close> reads \<open>subscriber_handle\<close>, the handle
  of the first call, as the source does.\<close>

definition setup_subscription_intra_process ::
  "'m ipm_interface \<Rightarrow> cpp_type \<Rightarrow> string \<Rightarrow> rmw_qos_profile_t \<Rightarrow> handle \<Rightarrow>
   addr \<times> Subscription \<Rightarrow> 'm world \<Rightarrow> (error + Subscription) \<times> 'm world" where
  "setup_subscription_intra_process I MessageT topic_name qos_profile subscriber_handle
       sub_base_ptr w =
     (case rmw_create (rmw_create_subscription (node_handle (node w)) (ipm_ts (node w))
                         (topic_name @ ''__intra'') qos_profile False) (rmw w) of
        (intra_process_subscriber_handle, m1) \<Rightarrow>
          (let w1 = w\<lparr>rmw := m1\<rparr> in
           if subscriber_handle = None then
             (Inl (runtime_error
                (''could not create intra process subscription: '' @
                 rmw_get_error_string_safe m1)), w1)
           else
             (case get_sub_context I w1 of
                ((weak_ipm, intra_process_manager), w2) \<Rightarrow>
                  (case ipm_add_subscription I sub_base_ptr intra_process_manager of
                     (Inl e, ipm') \<Rightarrow> (Inl e, w2\<lparr>sub_contexts := Some (weak_ipm, ipm')\<rparr>)
                   | (Inr intra_process_subscription_id, ipm') \<Rightarrow>
                       (Inr ((snd sub_base_ptr)\<lparr>subscription_intra_process :=
                               Some (intra_process_subscription_id,
                                     intra_process_subscriber_handle,
                                     get_message_callback_closure weak_ipm MessageT,
                                     matches_any_publisher_callback_closure weak_ipm)\<rparr>),
                        w2\<lparr>sub_contexts := Some (weak_ipm, ipm')\<rparr>)))))"

definition create_subscription_internal ::
  "'m ipm_interface \<Rightarrow> cpp_type \<Rightarrow> string \<Rightarrow> rmw_qos_profile_t \<Rightarrow> nat \<Rightarrow> group_ref option \<Rightarrow>
   bool \<Rightarrow> MessageMemoryStrategy option \<Rightarrow> 'm world \<Rightarrow>
   (error + addr \<times> Subscription) \<times> 'm world" where
  "create_subscription_internal I MessageT topic_name qos_profile callback grp
       ignore_local msg_mem_strat w =
     (let strat = (case msg_mem_strat of None \<Rightarrow> create_default MessageT | Some ms \<Rightarrow> ms);
          type_support_handle = get_message_type_support_handle MessageT in
      case rmw_create (rmw_create_subscription (node_handle (node w)) type_support_handle
                         topic_name qos_profile ignore_local) (rmw w) of
        (subscriber_handle, m1) \<Rightarrow>
          (let w1 = w\<lparr>rmw := m1\<rparr> in
           if subscriber_handle = None then
             (Inl (runtime_error
                (''could not create subscription: '' @ rmw_get_error_string_safe m1)), w1)
           else
             (case make_shared w1 of
                (a, w2) \<Rightarrow>
                  (let sub = \<lparr> subscription_node_handle = node_handle (node w2),
                               sub_handle = subscriber_handle,
                               subscription_topic = topic_name,
                               ignore_local_publications = ignore_local,
                               any_callback = callback,
                               memory_strategy = strat,
                               subscription_intra_process = None \<rparr> in
                   case (if use_intra_process_comms (node w2)
                         then setup_subscription_intra_process I MessageT topic_name qos_profile
                                subscriber_handle (a, sub) w2
                         else (Inr sub, w2)) of
                     (Inl e, w3) \<Rightarrow> (Inl e, w3)
                   | (Inr sub', w3) \<Rightarrow>
                       (case grp of
                          Some g \<Rightarrow>
                            if \<not> group_in_node (node w3) g then
                              (Inl (runtime_error
                                 ''Cannot create subscription, group not in node.''), w3)
                            else
                              (Inr (a, sub'),
                               w3\<lparr>groups := (groups w3)(g := add_subscription a (groups w3 g)),
                                  node := (node w3)\<lparr>number_of_subscriptions :=
                                            number_of_subscriptions (node w3) + 1\<rparr>\<rparr>)
                        | None \<Rightarrow>
                            (let d = default_callback_group (node w3) in
                             (Inr (a, sub'),
                              w3\<lparr>groups := (groups w3)(d := add_subscription a (groups w3 d)),
                                 node := (node w3)\<lparr>number_of_subscriptions :=
                                           number_of_subscriptions (node w3) + 1\<rparr>\<rparr>)))))))"

definition create_client ::
  "cpp_type \<Rightarrow> string \<Rightarrow> group_ref option \<Rightarrow> 'm world \<Rightarrow> (error + addr \<times> Client) \<times> 'm world" where
  "create_client ServiceT service_name grp w =
     (let service_type_support_handle = get_service_type_support_handle ServiceT in
      case rmw_create (rmw_create_client (node_handle (node w)) service_type_support_handle
                         service_name) (rmw w) of
        (client_handle, m1) \<Rightarrow>
          (let w1 = w\<lparr>rmw := m1\<rparr> in
           if client_handle = None then
             (Inl (runtime_error
                (''could not create client: '' @ rmw_get_error_string_safe m1)), w1)
           else
             (case make_shared w1 of
                (a, w2) \<Rightarrow>
                  (let cli = \<lparr> client_node_handle = node_handle (node w2),
                               cli_handle = client_handle,
                               client_service_name = service_name \<rparr> in
                   case grp of
                     Some g \<Rightarrow>
                       if \<not> group_in_node (node w2) g then
                         (Inl (runtime_error ''Cannot create client, group not in node.''), w2)
                       else
                         (Inr (a, cli),
                          w2\<lparr>groups := (groups w2)(g := add_client a (groups w2 g)),
                             node := (node w2)\<lparr>number_of_clients :=
                                       number_of_clients (node w2) + 1\<rparr>\<rparr>)
                   | None \<Rightarrow>
                       (let d = default_callback_group (node w2) in
                        (Inr (a, cli),
                         w2\<lparr>groups := (groups w2)(d := add_client a (groups w2 d)),
                            node := (node w2)\<lparr>number_of_clients :=
                                      number_of_clients (node w2) + 1\<rparr>\<rparr>))))))"

definition create_service ::
  "cpp_type \<Rightarrow> string \<Rightarrow> nat \<Rightarrow> group_ref option \<Rightarrow> 'm world \<Rightarrow>
   (error + addr \<times> Service) \<times> 'm world" where
  "create_service ServiceT service_name callback grp w =
     (let service_type_support_handle = get_service_type_support_handle ServiceT in
      case rmw_create (rmw_create_service (node_handle (node w)) service_type_support_handle
                         service_name) (rmw w) of
        (service_handle, m1) \<Rightarrow>
          (let w1 = w\<lparr>rmw := m1\<rparr> in
           if service_handle = None then
             (Inl (runtime_error
                (''could not create service: '' @ rmw_get_error_string_safe m1)), w1)
           else
             (case make_shared w1 of
                (a, w2) \<Rightarrow>
                  (let serv = \<lparr> service_node_handle = node_handle (node w2),
                                srv_handle = service_handle,
                                srv_name = service_name,
                                service_callback = callback \<rparr> in
                   case grp of
                     Some g \<Rightarrow>
                       if \<not> group_in_node (node w2) g then
                         (Inl (runtime_error ''Cannot create service, group not in node.''), w2)
                       else
                         (Inr (a, serv),
                          w2\<lparr>groups := (groups w2)(g := add_service a (groups w2 g)),
                             node := (node w2)\<lparr>number_of_services :=
                                       number_of_services (node w2) + 1\<rparr>\<rparr>)
                   | None \<Rightarrow>
                       (let d = default_callback_group (node w2) in
                        (Inr (a, serv),
                         w2\<lparr>groups := (groups w2)(d := add_service a (groups w2 d)),
                            node := (node w2)\<lparr>number_of_services :=
                                      number_of_services (node w2) + 1\<rparr>\<rparr>))))))"

subsection \<open>Group membership\<close>

text \<open>The groups registered with the node that hold a given pointer, and the group a create
  operation is asked to use: the one supplied, or the node's default group.\<close>

definition groups_holding :: "'m world \<Rightarrow> addr \<Rightarrow> group_ref list" where
  "groups_holding w a =
     filter (\<lambda>g. a \<in> set (member_ptrs (groups w g))) (callback_groups (node w))"

definition target_group :: "'m world \<Rightarrow> group_ref option \<Rightarrow> group_ref" where
  "target_group w grp = (case grp of Some g \<Rightarrow> g | None \<Rightarrow> default_callback_group (node w))"

text \<open>
  What the constructor of \<open>Node\<close> and \<open>make_shared\<close> establish, and every create
  operation keeps: the default group is one of the node's groups, no group is registered
  twice, and every pointer held by a group was handed out before.
\<close>

definition world_ok :: "'m world \<Rightarrow> bool" where
  "world_ok w =
     (default_callback_group (node w) \<in> set (callback_groups (node w)) \<and>
      distinct (callback_groups (node w)) \<and>
      list_all (\<lambda>g. list_all (\<lambda>a. a < next_addr w) (member_ptrs (groups w g)))
        (callback_groups (node w)))"

subsection \<open>A small world for the evaluated examples\<close>

text \<open>
  A manager that numbers publishers and subscriptions from one counter and keeps the stored
  messages in a list; a middleware that creates every handle, and one that creates the
  first handle it is asked for and fails on the second; a node with intra-process
  communication on and two registered groups, the first being the default group.
\<close>

record simple_ipm =
  issued :: "64 word"
  stored :: "(64 word \<times> 64 word \<times> addr) list"

definition simple_manager :: "simple_ipm ipm_interface" where
  "simple_manager =
     \<lparr> ipm_new = \<lparr> issued = 0, stored = [] \<rparr>,
       ipm_add_publisher = (\<lambda>T p m. (Inr (issued m), m\<lparr>issued := issued m + 1\<rparr>)),
       ipm_add_subscription = (\<lambda>p m. (Inr (issued m), m\<lparr>issued := issued m + 1\<rparr>)),
       ipm_store_intra_process_message =
         (\<lambda>T pid msg m. (Inr (of_nat (length (stored m))),
                         m\<lparr>stored := stored m @ [(pid, of_nat (length (stored m)), msg)]\<rparr>)),
       ipm_take_intra_process_message =
         (\<lambda>T pid seq sid m.
            case filter (\<lambda>e. fst e = pid \<and> fst (snd e) = seq) (stored m) of
              [] \<Rightarrow> (Inr None, m)
            | e # es \<Rightarrow>
                (Inr (Some (snd (snd e))),
                 m\<lparr>stored := filter (\<lambda>e. \<not> (fst e = pid \<and> fst (snd e) = seq)) (stored m)\<rparr>)),
       ipm_matches_any_publishers = (\<lambda>gid m. Inr False) \<rparr>"

definition rmw_all_ok :: middleware where
  "rmw_all_ok = \<lparr> calls = [], answer = (\<lambda>log c. Inr (length log)), error_state = [] \<rparr>"

definition rmw_second_fails :: middleware where
  "rmw_second_fails =
     \<lparr> calls = [],
       answer = (\<lambda>log c. if length log = 1 then Inl ''out of resources'' else Inr (length log)),
       error_state = [] \<rparr>"

definition group0 :: CallbackGroup where
  "group0 =
     \<lparr> group_type = MutuallyExclusive, subscription_ptrs = [], timer_ptrs = [],
       service_ptrs = [], client_ptrs = [], can_be_taken_from = True \<rparr>"

definition node0 :: Node where
  "node0 =
     \<lparr> node_handle = Some 7, use_intra_process_comms = True,
       ipm_ts = message_type_support ''rcl_interfaces::msg::IntraProcessMessage'',
       default_callback_group = 0, callback_groups = [0, 1],
       number_of_subscriptions = 0, number_of_services = 0, number_of_clients = 0 \<rparr>"

definition world0 :: "simple_ipm world" where
  "world0 =
     \<lparr> rmw = rmw_all_ok, node = node0, groups = (\<lambda>g. group0), sub_contexts = None,
       next_addr = 0 \<rparr>"

text \<open>The example world after a publisher was created in it, which made the context
  create its manager at address 1, and the context then gave the manager up.\<close>

definition world_torn_down :: "simple_ipm world" where
  "world_torn_down =
     (snd (create_publisher simple_manager ''M'' ''chatter'' \<lparr>depth = 10\<rparr> world0))
       \<lparr>sub_contexts := None\<rparr>"

section \<open>Properties of the interrupt station\<close>

lemma SIGINT_nonzero: "SIGINT \<noteq> 0"
  by (simp add: SIGINT_def)

lemma status_init: "g_signal_status (snd (init env s)) = g_signal_status s"
  by (simp add: init_def Let_def)

lemma status_shutdown: "g_signal_status (shutdown t s) = SIGINT"
  by (simp add: shutdown_def Let_def)

lemma call_old_action_fields:
  "g_signal_status (call_old_action v s) = g_signal_status s"
  "g_is_interrupted (call_old_action v s) = g_is_interrupted s"
  "guard_cond_triggers (call_old_action v s) = guard_cond_triggers s"
  "condition_variable_notifications (call_old_action v s) = condition_variable_notifications s"
  by (simp_all add: call_old_action_def)

lemma status_signal_handler: "g_signal_status (signal_handler t v s) = v"
  by (simp add: signal_handler_def Let_def)

lemma step_keeps_signalled: "g_signal_status s \<noteq> 0 \<Longrightarrow> g_signal_status (step x s) \<noteq> 0"
  by (cases x) (simp_all add: status_init status_shutdown status_signal_handler SIGINT_nonzero)

lemma run_keeps_signalled: "g_signal_status s \<noteq> 0 \<Longrightarrow> g_signal_status (run xs s) \<noteq> 0"
  by (induction xs arbitrary: s) (simp_all add: step_keeps_signalled)

lemma interrupted_shutdown: "g_is_interrupted (shutdown t s)"
  by (simp add: shutdown_def Let_def)

lemma interrupted_signal_handler: "g_is_interrupted (signal_handler t v s)"
  by (simp add: signal_handler_def Let_def)

lemma interrupted_init: "\<not> g_is_interrupted (snd (init env s))"
  by (simp add: init_def Let_def)

lemma step_signals: "signals x \<Longrightarrow> g_is_interrupted (step x s)"
  by (cases x) (simp_all add: interrupted_shutdown interrupted_signal_handler)

lemma step_keeps_interrupted:
  "g_is_interrupted s \<Longrightarrow> \<not> is_Init x \<Longrightarrow> g_is_interrupted (step x s)"
  by (cases x) (simp_all add: interrupted_shutdown interrupted_signal_handler)

lemma run_keeps_interrupted:
  "g_is_interrupted s \<Longrightarrow> list_all (\<lambda>x. \<not> is_Init x) xs \<Longrightarrow> g_is_interrupted (run xs s)"
  by (induction xs arbitrary: s) (simp_all add: step_keeps_interrupted)

lemma step_quiet:
  "\<not> g_is_interrupted s \<Longrightarrow> \<not> signals x \<Longrightarrow> \<not> g_is_interrupted (step x s)"
  by (cases x) (simp_all add: interrupted_init)

lemma run_quiet:
  "\<not> g_is_interrupted s \<Longrightarrow> list_all (\<lambda>x. \<not> signals x) xs \<Longrightarrow> \<not> g_is_interrupted (run xs s)"
  by (induction xs arbitrary: s) (simp_all add: step_quiet)

lemma run_append: "run (xs @ ys) s = run ys (run xs s)"
  by (induction xs arbitrary: s) simp_all

lemma run_last_signals:
  "xs \<noteq> [] \<Longrightarrow> signals (last xs) \<Longrightarrow> g_is_interrupted (run xs s)"
proof -
  assume ne: "xs \<noteq> []" and sig: "signals (last xs)"
  from ne have "xs = butlast xs @ [last xs]" by simp
  then have "run xs s = step (last xs) (run (butlast xs) s)"
    by (metis run_append run.simps)
  with sig show ?thesis by (simp add: step_signals)
qed

lemma run_signal_then_no_init:
  "signals x \<Longrightarrow> list_all (\<lambda>y. \<not> is_Init y) post \<Longrightarrow>
   g_is_interrupted (run (pre @ x # post) s)"
proof -
  assume sig: "signals x" and post: "list_all (\<lambda>y. \<not> is_Init y) post"
  have "run (pre @ x # post) s = run post (step x (run pre s))"
    by (simp add: run_append)
  moreover from sig have "g_is_interrupted (step x (run pre s))"
    by (rule step_signals)
  ultimately show ?thesis
    using post by (simp add: run_keeps_interrupted)
qed

lemma ns_bounds: "ns_min < 0" "0 \<le> ns_max" "ns_min + ns_max < 0" "ns_min = - ns_max - 1"
  by (simp_all add: ns_min_def ns_max_def)

lemma sleep_for_full:
  "ws \<noteq> [] \<Longrightarrow> \<not> g_is_interrupted s \<Longrightarrow> list_all quiet ws \<Longrightarrow>
   list_all (\<lambda>w. int (elapsed w) \<le> ns_max) ws \<Longrightarrow> ns_min \<le> D - int (elapsed (hd ws)) \<Longrightarrow>
   D \<le> total_elapsed ws \<Longrightarrow> fst (sleep_for ws D s) = returned True"
proof (induction ws arbitrary: D s)
  case Nil
  then show ?case by simp
next
  case (Cons w ws)
  let ?s' = "run (meanwhile w) s"
  let ?left = "D - int (elapsed w)"
  from Cons.prems have q: "\<not> g_is_interrupted ?s'"
    by (simp add: quiet_def run_quiet)
  from Cons.prems have no_ovf: "\<not> ?left < ns_min" by simp
  show ?case
  proof (cases "?left > 0")
    case False
    with q no_ovf show ?thesis by (simp add: Let_def)
  next
    case True
    from Cons.prems True have ne: "ws \<noteq> []"
      by (auto simp: total_elapsed_def)
    from Cons.prems ne have "int (elapsed (hd ws)) \<le> ns_max"
      by (cases ws) simp_all
    with True have rng: "ns_min \<le> ?left - int (elapsed (hd ws))"
      using ns_bounds by linarith
    from Cons.prems have tot: "?left \<le> total_elapsed ws"
      by (simp add: total_elapsed_def)
    from Cons.prems have rest: "list_all quiet ws" "list_all (\<lambda>w. int (elapsed w) \<le> ns_max) ws"
      by simp_all
    have "fst (sleep_for ws ?left ?s') = returned True"
      by (rule Cons.IH [OF ne q rest rng tot])
    with True q no_ovf show ?thesis by (simp add: Let_def)
  qed
qed

lemma sleep_for_interrupted:
  "g_is_interrupted (run (meanwhile w) s) \<Longrightarrow> ns_min \<le> D - int (elapsed w) \<Longrightarrow>
   fst (sleep_for (w # ws) D s) = returned False"
  by (simp add: Let_def)

lemma sleep_for_resume:
  "int (elapsed w) < D \<Longrightarrow> \<not> g_is_interrupted (run (meanwhile w) s) \<Longrightarrow>
   sleep_for (w # ws) D s = sleep_for ws (D - int (elapsed w)) (run (meanwhile w) s)"
  using ns_bounds by (simp add: Let_def)

text \<open>
  Claim C4 says that \<open>sleep_for\<close> returns false whenever it is woken by a shutdown.
  \<open>sleep_for\<close> does not see the notification, it reads \<open>g_is_interrupted\<close> after the
  wait, and \<open>init\<close> clears that flag: a sleep of 10 ns that a \<open>shutdown\<close> wakes after
  2 ns, with an \<open>init\<close> run before the sleeper reads the flag, waits for the remaining
  8 ns and returns true; and when the wake comes as the time is up, it returns true at once.
\<close>

theorem woken_then_init_counterexample:
  "fst (sleep_for [\<lparr>elapsed = 2, meanwhile = [Shutdown rcl_ok, Init init_env_ok]\<rparr>,
                   \<lparr>elapsed = 8, meanwhile = []\<rparr>] 10 station0) = returned True \<and>
   fst (sleep_for [\<lparr>elapsed = 10, meanwhile = [Shutdown rcl_ok, Init init_env_ok]\<rparr>] 10
          station0) = returned True"
  by (simp add: station0_def rcl_ok_def init_env_ok_def shutdown_def init_def Let_def
      SIGINT_def RCL_RET_OK_def ns_min_def)

text \<open>
  Claim C4, amended. For every duration \<open>D\<close> within the range of the clock: \<open>sleep_for D\<close>
  returns true when the waits together lasted at least \<open>D\<close> and the station was not
  signalled, neither before the call nor during a wait; it returns false when it is woken
  by a shutdown (a \<open>shutdown\<close> or a SIGINT happened during the wait) and no \<open>init\<close> ran
  between that shutdown and the moment the sleeper reads the flag; and after a wake that
  came before \<open>D\<close> had elapsed, with the station not interrupted, it goes on exactly as a
  fresh call for the remaining time \<open>D - elapsed\<close> would.
\<close>

theorem sleep_for_result:
  "(ws \<noteq> [] \<and> \<not> g_is_interrupted s \<and> list_all quiet ws \<and>
      list_all (\<lambda>w. int (elapsed w) \<le> ns_max) ws \<and> ns_min \<le> D - int (elapsed (hd ws)) \<and>
      D \<le> total_elapsed ws
      \<longrightarrow> fst (sleep_for ws D s) = returned True) \<and>
   (meanwhile w1 = pre @ x # post \<and> signals x \<and> list_all (\<lambda>y. \<not> is_Init y) post \<and>
      ns_min \<le> D1 - int (elapsed w1)
      \<longrightarrow> fst (sleep_for (w1 # ws1) D1 s1) = returned False) \<and>
   (int (elapsed w2) < D2 \<and> \<not> g_is_interrupted (run (meanwhile w2) s2)
      \<longrightarrow> sleep_for (w2 # ws2) D2 s2 =
           sleep_for ws2 (D2 - int (elapsed w2)) (run (meanwhile w2) s2))"
proof (intro conjI impI)
  assume "ws \<noteq> [] \<and> \<not> g_is_interrupted s \<and> list_all quiet ws \<and>
      list_all (\<lambda>w. int (elapsed w) \<le> ns_max) ws \<and> ns_min \<le> D - int (elapsed (hd ws)) \<and>
      D \<le> total_elapsed ws"
  then show "fst (sleep_for ws D s) = returned True"
    by (simp add: sleep_for_full del: sleep_for.simps)
next
  assume h: "meanwhile w1 = pre @ x # post \<and> signals x \<and>
      list_all (\<lambda>y. \<not> is_Init y) post \<and> ns_min \<le> D1 - int (elapsed w1)"
  then have "g_is_interrupted (run (meanwhile w1) s1)"
    by (simp add: run_signal_then_no_init)
  with h show "fst (sleep_for (w1 # ws1) D1 s1) = returned False"
    by (intro sleep_for_interrupted) simp_all
next
  assume "int (elapsed w2) < D2 \<and> \<not> g_is_interrupted (run (meanwhile w2) s2)"
  then show "sleep_for (w2 # ws2) D2 s2 =
      sleep_for ws2 (D2 - int (elapsed w2)) (run (meanwhile w2) s2)"
    by (intro sleep_for_resume) simp_all
qed

text \<open>The amended claim at a sleep of 10 ns: two undisturbed wakes after 4 ns and after 7
  more; a wake after 2 ns during which an \<open>init\<close> was followed by a \<open>shutdown\<close> and a
  SIGINT; and the first of the two undisturbed wakes taken alone.\<close>

theorem sleep_for_result_witness:
  "fst (sleep_for [\<lparr>elapsed = 4, meanwhile = []\<rparr>, \<lparr>elapsed = 7, meanwhile = []\<rparr>] 10 station0)
     = returned True \<and>
   fst (sleep_for [\<lparr>elapsed = 2,
                     meanwhile = [Init init_env_ok, Shutdown rcl_ok, Sigint rcl_ok]\<rparr>] 10 station0)
     = returned False \<and>
   sleep_for [\<lparr>elapsed = 4, meanwhile = []\<rparr>, \<lparr>elapsed = 7, meanwhile = []\<rparr>] 10 station0 =
     sleep_for [\<lparr>elapsed = 7, meanwhile = []\<rparr>] 6 station0"
  using sleep_for_result [where ws = "[\<lparr>elapsed = 4, meanwhile = []\<rparr>, \<lparr>elapsed = 7, meanwhile = []\<rparr>]"
      and s = station0 and D = 10
      and ?w1.0 = "\<lparr>elapsed = 2, meanwhile = [Init init_env_ok, Shutdown rcl_ok, Sigint rcl_ok]\<rparr>"
      and pre = "[Init init_env_ok]" and x = "Shutdown rcl_ok" and post = "[Sigint rcl_ok]"
      and ?D1.0 = 10 and ?ws1.0 = "[]" and ?s1.0 = station0
      and ?w2.0 = "\<lparr>elapsed = 4, meanwhile = []\<rparr>" and ?D2.0 = 10 and ?s2.0 = station0
      and ?ws2.0 = "[\<lparr>elapsed = 7, meanwhile = []\<rparr>]"]
  by (simp add: quiet_def total_elapsed_def ns_min_def ns_max_def station0_def)

text \<open>
  Claim C5. \<open>shutdown\<close> has the effects of a delivered SIGINT: after either, the signal
  status is SIGINT, which is not zero, so \<open>ok\<close> is false; one more
  \<open>rcl_trigger_guard_condition\<close> call has been made on the global guard condition; the
  interrupted flag is set; and the condition variable has been notified once more.
\<close>

theorem shutdown_like_sigint:
  "g_signal_status (shutdown t s) = SIGINT \<and>
   g_signal_status (signal_handler t' SIGINT s) = SIGINT \<and>
   \<not> ok (shutdown t s) \<and> \<not> ok (signal_handler t' SIGINT s) \<and>
   guard_cond_triggers (shutdown t s) = Suc (guard_cond_triggers s) \<and>
   guard_cond_triggers (signal_handler t' SIGINT s) = Suc (guard_cond_triggers s) \<and>
   g_is_interrupted (shutdown t s) \<and> g_is_interrupted (signal_handler t' SIGINT s) \<and>
   condition_variable_notifications (shutdown t s) = Suc (condition_variable_notifications s) \<and>
   condition_variable_notifications (signal_handler t' SIGINT s) =
     Suc (condition_variable_notifications s)"
  by (simp add: shutdown_def signal_handler_def Let_def ok_def SIGINT_def call_old_action_fields)

text \<open>
  Claim C3 says that nothing, a later \<open>init\<close> included, clears the signalled state, so that
  \<open>sleep_for\<close> returns false from then on. \<open>init\<close> begins by storing false into
  \<open>g_is_interrupted\<close>: after \<open>shutdown\<close> and then \<open>init\<close>, \<open>ok\<close> is still false, but a
  sleep whose time elapses returns true. The same holds after \<open>init\<close>, a SIGINT and a second
  \<open>init\<close> that throws because \<open>rcl_init\<close> fails, the flag being cleared before that call.
\<close>

theorem signalled_then_init_counterexample:
  "\<not> ok (run [Shutdown rcl_ok, Init init_env_ok] station0) \<and>
   fst (sleep_for [\<lparr>elapsed = 5, meanwhile = []\<rparr>] 5
          (run [Shutdown rcl_ok, Init init_env_ok] station0)) = returned True \<and>
   isl (fst (init init_env_rcl_fails (run [Init init_env_ok, Sigint rcl_ok] station0))) \<and>
   \<not> ok (run [Init init_env_ok, Sigint rcl_ok, Init init_env_rcl_fails] station0) \<and>
   fst (sleep_for [\<lparr>elapsed = 5, meanwhile = []\<rparr>] 5
          (run [Init init_env_ok, Sigint rcl_ok, Init init_env_rcl_fails] station0)) = returned True"
  by (simp add: station0_def rcl_ok_def init_env_ok_def init_env_rcl_fails_def shutdown_def
      signal_handler_def call_old_action_def init_def Let_def ok_def SIGINT_def RCL_RET_OK_def
      ns_min_def)

text \<open>
  Claim C3, amended. Once the station has been signalled (by \<open>shutdown\<close> or SIGINT), the
  signal status is never reset: \<open>ok\<close> is false after any further sequence of \<open>init\<close>,
  \<open>shutdown\<close> and SIGINT. The interrupted flag is cleared by every \<open>init\<close>; as long as
  \<open>init\<close> is not called, neither before the sleep nor during its first wait, \<open>sleep_for\<close>
  returns false at its first wake.
\<close>

theorem signal_status_never_reset:
  "signals x \<longrightarrow>
     \<not> ok (run ops (step x s)) \<and>
     \<not> g_is_interrupted (run (ops @ [Init env]) (step x s)) \<and>
     (list_all (\<lambda>y. \<not> is_Init y) (ops @ meanwhile w) \<and> ns_min \<le> D - int (elapsed w)
        \<longrightarrow> fst (sleep_for (w # ws) D (run ops (step x s))) = returned False)"
proof (intro impI conjI)
  assume sig: "signals x"
  then have "g_signal_status (step x s) \<noteq> 0"
    by (cases x) (simp_all add: status_shutdown status_signal_handler SIGINT_nonzero)
  then show "\<not> ok (run ops (step x s))"
    by (simp add: ok_def run_keeps_signalled)
  show "\<not> g_is_interrupted (run (ops @ [Init env]) (step x s))"
    by (simp add: run_append interrupted_init)
  assume h: "list_all (\<lambda>y. \<not> is_Init y) (ops @ meanwhile w) \<and> ns_min \<le> D - int (elapsed w)"
  from sig have "g_is_interrupted (step x s)" by (rule step_signals)
  with h have "g_is_interrupted (run (ops @ meanwhile w) (step x s))"
    by (intro run_keeps_interrupted) simp_all
  then have "g_is_interrupted (run (meanwhile w) (run ops (step x s)))"
    by (simp add: run_append)
  with h show "fst (sleep_for (w # ws) D (run ops (step x s))) = returned False"
    by (intro sleep_for_interrupted) simp_all
qed

text \<open>The amended claim after a \<open>shutdown\<close> at program start: followed by an \<open>init\<close>,
  and followed by a SIGINT and a sleep of 9 ns that wakes after 3 ns.\<close>

theorem signal_status_never_reset_witness:
  "\<not> ok (run [Init init_env_ok] (step (Shutdown rcl_ok) station0)) \<and>
   \<not> g_is_interrupted (run ([Init init_env_ok] @ [Init init_env_ok]) (step (Shutdown rcl_ok) station0)) \<and>
   fst (sleep_for [\<lparr>elapsed = 3, meanwhile = []\<rparr>] 9 (run [Sigint rcl_ok] (step (Shutdown rcl_ok) station0)))
     = returned False"
  using signal_status_never_reset [of "Shutdown rcl_ok" "[Init init_env_ok]" station0 init_env_ok
      "\<lparr>elapsed = 3, meanwhile = []\<rparr>" 9 "[]"]
    signal_status_never_reset [of "Shutdown rcl_ok" "[Sigint rcl_ok]" station0 init_env_ok
      "\<lparr>elapsed = 3, meanwhile = []\<rparr>" 9 "[]"]
  by (simp add: ns_min_def)

section \<open>Properties of entity creation\<close>

subsection \<open>Frame and result of the create operations\<close>
lemma get_sub_context_frame:
  "get_sub_context I w = ((r, m), w') \<Longrightarrow>
   rmw w' = rmw w \<and> node w' = node w \<and> groups w' = groups w \<and> next_addr w \<le> next_addr w'"
  by (auto simp: get_sub_context_def make_shared_def split: option.splits prod.splits)

lemma setup_subscription_intra_process_frame:
  "setup_subscription_intra_process I T topic q h p w = (res, w') \<Longrightarrow>
   node w' = node w \<and> groups w' = groups w \<and> next_addr w \<le> next_addr w' \<and>
   calls (rmw w') = calls (rmw w) @
     [rmw_create_subscription (node_handle (node w)) (ipm_ts (node w)) (topic @ ''__intra'') q False]"
  apply (simp add: setup_subscription_intra_process_def Let_def split: prod.splits if_splits sum.splits)
  apply (auto dest!: get_sub_context_frame simp: rmw_create_def split: sum.splits)
  done

lemma create_service_frame:
  "create_service T n cb grp w = (res, w') \<Longrightarrow>
   callback_groups (node w') = callback_groups (node w) \<and>
   default_callback_group (node w') = default_callback_group (node w) \<and>
   next_addr w \<le> next_addr w'"
  by (auto simp: create_service_def make_shared_def Let_def
      split: prod.splits if_splits option.splits)

lemma create_service_Inr:
  "create_service T n cb grp w = (Inr (a, srv), w') \<Longrightarrow>
   a = next_addr w \<and> next_addr w' = Suc (next_addr w) \<and>
   (case grp of None \<Rightarrow> True | Some g \<Rightarrow> group_in_node (node w) g) \<and>
   groups w' = (groups w)(target_group w grp := add_service a (groups w (target_group w grp)))"
  by (auto simp: create_service_def make_shared_def Let_def target_group_def
      split: prod.splits if_splits option.splits)

lemma create_client_frame:
  "create_client T n grp w = (res, w') \<Longrightarrow>
   callback_groups (node w') = callback_groups (node w) \<and>
   default_callback_group (node w') = default_callback_group (node w) \<and>
   next_addr w \<le> next_addr w'"
  by (auto simp: create_client_def make_shared_def Let_def
      split: prod.splits if_splits option.splits)

lemma create_client_Inr:
  "create_client T n grp w = (Inr (a, cli), w') \<Longrightarrow>
   a = next_addr w \<and> next_addr w' = Suc (next_addr w) \<and>
   (case grp of None \<Rightarrow> True | Some g \<Rightarrow> group_in_node (node w) g) \<and>
   groups w' = (groups w)(target_group w grp := add_client a (groups w (target_group w grp)))"
  by (auto simp: create_client_def make_shared_def Let_def target_group_def
      split: prod.splits if_splits option.splits)

lemma create_subscription_internal_frame:
  "create_subscription_internal I T topic q cb grp il ms w = (res, w') \<Longrightarrow>
   callback_groups (node w') = callback_groups (node w) \<and>
   default_callback_group (node w') = default_callback_group (node w) \<and>
   next_addr w \<le> next_addr w'"
  apply (simp add: create_subscription_internal_def make_shared_def Let_def
      split: prod.splits if_splits option.splits sum.splits)
  apply (auto dest!: setup_subscription_intra_process_frame)
  done

lemma create_subscription_internal_Inr:
  "create_subscription_internal I T topic q cb grp il ms w = (Inr (a, sub), w') \<Longrightarrow>
   a = next_addr w \<and> Suc (next_addr w) \<le> next_addr w' \<and>
   (case grp of None \<Rightarrow> True | Some g \<Rightarrow> group_in_node (node w) g) \<and>
   groups w' = (groups w)(target_group w grp := add_subscription a (groups w (target_group w grp)))"
  apply (simp add: create_subscription_internal_def make_shared_def Let_def target_group_def
      split: prod.splits if_splits option.splits sum.splits)
  apply (auto dest!: setup_subscription_intra_process_frame)
  done

lemma filter_is_singleton:
  "distinct xs \<Longrightarrow> t \<in> set xs \<Longrightarrow> (\<And>x. x \<in> set xs \<Longrightarrow> P x = (x = t)) \<Longrightarrow> filter P xs = [t]"
proof (induction xs)
  case Nil
  then show ?case by simp
next
  case (Cons x xs)
  show ?case
  proof (cases "x = t")
    case True
    with Cons.prems have "filter P xs = []"
      by (auto simp: filter_empty_conv)
    with True Cons.prems show ?thesis by simp
  next
    case False
    with Cons show ?thesis by auto
  qed
qed

lemma member_ptrs_add:
  "set (member_ptrs (add_subscription a G)) = insert a (set (member_ptrs G))"
  "set (member_ptrs (add_service a G)) = insert a (set (member_ptrs G))"
  "set (member_ptrs (add_client a G)) = insert a (set (member_ptrs G))"
  by (auto simp: member_ptrs_def add_subscription_def add_service_def add_client_def)

lemma world_ok_fresh:
  "world_ok w \<Longrightarrow> g \<in> set (callback_groups (node w)) \<Longrightarrow> next_addr w \<notin> set (member_ptrs (groups w g))"
  by (auto simp: world_ok_def list_all_iff)

lemma one_group_after_add:
  assumes ok: "world_ok w"
    and t: "t \<in> set (callback_groups (node w))"
    and cg: "callback_groups (node w') = callback_groups (node w)"
    and dg: "default_callback_group (node w') = default_callback_group (node w)"
    and gs: "groups w' = (groups w)(t := G')"
    and G': "set (member_ptrs G') = insert (next_addr w) (set (member_ptrs (groups w t)))"
    and nx: "next_addr w < next_addr w'"
  shows "groups_holding w' (next_addr w) = [t] \<and> world_ok w'"
proof
  have "filter (\<lambda>g. next_addr w \<in> set (member_ptrs (groups w' g))) (callback_groups (node w)) = [t]"
  proof (rule filter_is_singleton)
    show "distinct (callback_groups (node w))" using ok by (simp add: world_ok_def)
    show "t \<in> set (callback_groups (node w))" by (rule t)
    fix x assume "x \<in> set (callback_groups (node w))"
    then show "(next_addr w \<in> set (member_ptrs (groups w' x))) = (x = t)"
      using world_ok_fresh [OF ok] by (simp add: gs G')
  qed
  then show "groups_holding w' (next_addr w) = [t]"
    by (simp add: groups_holding_def cg)
  have "\<And>g a. g \<in> set (callback_groups (node w)) \<Longrightarrow> a \<in> set (member_ptrs (groups w' g)) \<Longrightarrow>
          a < next_addr w'"
  proof -
    fix g a assume g: "g \<in> set (callback_groups (node w))" and a: "a \<in> set (member_ptrs (groups w' g))"
    from a have "a = next_addr w \<or> a \<in> set (member_ptrs (groups w g))"
      by (cases "g = t") (auto simp: gs G')
    moreover have "a \<in> set (member_ptrs (groups w g)) \<Longrightarrow> a < next_addr w"
      using ok g by (auto simp: world_ok_def list_all_iff)
    ultimately show "a < next_addr w'" using nx by auto
  qed
  then show "world_ok w'"
    using ok by (auto simp: world_ok_def list_all_iff cg dg)
qed

lemma target_group_registered:
  "world_ok w \<Longrightarrow> (case grp of None \<Rightarrow> True | Some g \<Rightarrow> group_in_node (node w) g) \<Longrightarrow>
   target_group w grp \<in> set (callback_groups (node w))"
  by (auto simp: world_ok_def target_group_def group_in_node_def split: option.splits)

subsection \<open>Publishers and groups\<close>

lemma create_publisher_Inr:
  "create_publisher I T topic q w = (Inr (a, p), w') \<Longrightarrow>
   a = next_addr w \<and> groups w' = groups w \<and>
   callback_groups (node w') = callback_groups (node w)"
  apply (simp add: create_publisher_def make_shared_def Let_def
      split: prod.splits if_splits sum.splits)
  apply (auto dest!: get_sub_context_frame)
  done

lemma create_publisher_intra_handle:
  "use_intra_process_comms (node w) \<Longrightarrow> fst (create_publisher I T topic q w) = Inr p \<Longrightarrow>
   (case publisher_intra_process (snd p) of
      None \<Rightarrow> False
    | Some x \<Rightarrow> snd (snd x) \<noteq> None)"
  apply (simp add: create_publisher_def make_shared_def Let_def
      split: prod.splits if_splits sum.splits)
  apply (auto dest!: get_sub_context_frame)
  done

lemma publisher_in_no_group:
  "world_ok w \<Longrightarrow> create_publisher I T topic q w = (Inr (a, p), w') \<Longrightarrow>
   groups w' = groups w \<and> groups_holding w' a = []"
proof -
  assume ok: "world_ok w" and c: "create_publisher I T topic q w = (Inr (a, p), w')"
  note f = create_publisher_Inr [OF c]
  from ok f have "\<forall>g \<in> set (callback_groups (node w)). a \<notin> set (member_ptrs (groups w g))"
    by (simp add: world_ok_fresh)
  with f show ?thesis
    by (simp add: groups_holding_def filter_empty_conv)
qed

text \<open>
  Claim C2 counts publishers among the entities that a successful create attaches to a
  callback group. \<open>create_publisher\<close> takes no group and a \<open>CallbackGroup\<close> has no vector
  of publishers: the publisher created in the example world is held by no group of its
  node.
\<close>

theorem publisher_in_no_group_counterexample:
  "fst (create_publisher simple_manager ''M'' ''chatter'' \<lparr>depth = 10\<rparr> world0) =
     Inr (0, \<lparr> publisher_node_handle = Some 7, pub_handle = Some 0,
               publisher_topic = ''chatter'', queue_size = 10,
               publisher_intra_process =
                 Some (0, shared_publish_callback_closure 1 ''M'', Some 1) \<rparr>) \<and>
   groups_holding (snd (create_publisher simple_manager ''M'' ''chatter'' \<lparr>depth = 10\<rparr> world0)) 0 = []"
  by (simp add: create_publisher_def rmw_create_def make_shared_def get_sub_context_def
      get_message_type_support_handle_def groups_holding_def member_ptrs_def world0_def node0_def
      group0_def rmw_all_ok_def simple_manager_def Let_def)

text \<open>
  Claim C2, amended. For a subscription, a service and a client, a successful create
  appends the created entity to the group the caller supplied, or to the node's default
  group if none was given; afterwards that group is the only group registered with the node
  that holds the entity, and the world is well formed again. A successful
  \<open>create_publisher\<close> changes no group, and no group of the node holds the publisher.
\<close>

theorem created_entity_in_one_group:
  "(world_ok w \<and> create_subscription_internal I T topic q cb grp il ms w = (Inr (a, sub), w') \<longrightarrow>
      a \<in> set (subscription_ptrs (groups w' (target_group w grp))) \<and>
      groups_holding w' a = [target_group w grp] \<and> world_ok w') \<and>
   (world_ok w1 \<and> create_service T1 n1 cb1 grp1 w1 = (Inr (a1, srv), w1') \<longrightarrow>
      a1 \<in> set (service_ptrs (groups w1' (target_group w1 grp1))) \<and>
      groups_holding w1' a1 = [target_group w1 grp1] \<and> world_ok w1') \<and>
   (world_ok w2 \<and> create_client T2 n2 grp2 w2 = (Inr (a2, cli), w2') \<longrightarrow>
      a2 \<in> set (client_ptrs (groups w2' (target_group w2 grp2))) \<and>
      groups_holding w2' a2 = [target_group w2 grp2] \<and> world_ok w2') \<and>
   (world_ok w3 \<and> create_publisher I3 T3 topic3 q3 w3 = (Inr (a3, pub), w3') \<longrightarrow>
      groups w3' = groups w3 \<and> groups_holding w3' a3 = [])"
proof (intro conjI impI)
  assume h: "world_ok w \<and> create_subscription_internal I T topic q cb grp il ms w = (Inr (a, sub), w')"
  note c = create_subscription_internal_Inr [OF conjunct2 [OF h]]
  note f = create_subscription_internal_frame [OF conjunct2 [OF h]]
  from c show "a \<in> set (subscription_ptrs (groups w' (target_group w grp)))"
    by (simp add: add_subscription_def)
  have "groups_holding w' (next_addr w) = [target_group w grp] \<and> world_ok w'"
    using h c f by (intro one_group_after_add [where G' = "add_subscription a (groups w (target_group w grp))"]
        target_group_registered) (simp_all add: member_ptrs_add)
  with c show "groups_holding w' a = [target_group w grp]" and "world_ok w'" by simp_all
next
  assume h: "world_ok w1 \<and> create_service T1 n1 cb1 grp1 w1 = (Inr (a1, srv), w1')"
  note c = create_service_Inr [OF conjunct2 [OF h]]
  note f = create_service_frame [OF conjunct2 [OF h]]
  from c show "a1 \<in> set (service_ptrs (groups w1' (target_group w1 grp1)))"
    by (simp add: add_service_def)
  have "groups_holding w1' (next_addr w1) = [target_group w1 grp1] \<and> world_ok w1'"
    using h c f by (intro one_group_after_add [where G' = "add_service a1 (groups w1 (target_group w1 grp1))"]
        target_group_registered) (simp_all add: member_ptrs_add)
  with c show "groups_holding w1' a1 = [target_group w1 grp1]" and "world_ok w1'" by simp_all
next
  assume h: "world_ok w2 \<and> create_client T2 n2 grp2 w2 = (Inr (a2, cli), w2')"
  note c = create_client_Inr [OF conjunct2 [OF h]]
  note f = create_client_frame [OF conjunct2 [OF h]]
  from c show "a2 \<in> set (client_ptrs (groups w2' (target_group w2 grp2)))"
    by (simp add: add_client_def)
  have "groups_holding w2' (next_addr w2) = [target_group w2 grp2] \<and> world_ok w2'"
    using h c f by (intro one_group_after_add [where G' = "add_client a2 (groups w2 (target_group w2 grp2))"]
        target_group_registered) (simp_all add: member_ptrs_add)
  with c show "groups_holding w2' a2 = [target_group w2 grp2]" and "world_ok w2'" by simp_all
next
  assume h: "world_ok w3 \<and> create_publisher I3 T3 topic3 q3 w3 = (Inr (a3, pub), w3')"
  note p = publisher_in_no_group [OF conjunct1 [OF h] conjunct2 [OF h]]
  from p show "groups w3' = groups w3" and "groups_holding w3' a3 = []" by simp_all
qed

text \<open>The amended claim in the example world: a subscription created into group 1, a
  service into the default group 0, a client into group 1, and a publisher.\<close>

theorem created_entity_in_one_group_witness:
  "groups_holding (snd (create_subscription_internal simple_manager ''M'' ''chatter''
       \<lparr>depth = 10\<rparr> 0 (Some 1) False None world0)) 0 = [1] \<and>
   groups_holding (snd (create_service ''S'' ''add'' 0 None world0)) 0 = [0] \<and>
   groups_holding (snd (create_client ''S'' ''add'' (Some 1) world0)) 0 = [1] \<and>
   groups (snd (create_publisher simple_manager ''M'' ''chatter'' \<lparr>depth = 10\<rparr> world0)) =
     groups world0"
  using created_entity_in_one_group [where w = world0 and I = simple_manager and T = "''M''"
      and topic = "''chatter''" and q = "\<lparr>depth = 10\<rparr>" and cb = 0 and grp = "Some 1"
      and il = False and ms = None and a = 0
      and sub = "snd (projr (fst (create_subscription_internal simple_manager ''M'' ''chatter''
                   \<lparr>depth = 10\<rparr> 0 (Some 1) False None world0)))"
      and w' = "snd (create_subscription_internal simple_manager ''M'' ''chatter''
                   \<lparr>depth = 10\<rparr> 0 (Some 1) False None world0)"
      and ?w1.0 = world0 and ?T1.0 = "''S''" and ?n1.0 = "''add''" and ?cb1.0 = 0
      and ?grp1.0 = None and ?a1.0 = 0
      and srv = "snd (projr (fst (create_service ''S'' ''add'' 0 None world0)))"
      and ?w1' = "snd (create_service ''S'' ''add'' 0 None world0)"
      and ?w2.0 = world0 and ?T2.0 = "''S''" and ?n2.0 = "''add''" and ?grp2.0 = "Some 1"
      and ?a2.0 = 0
      and cli = "snd (projr (fst (create_client ''S'' ''add'' (Some 1) world0)))"
      and ?w2' = "snd (create_client ''S'' ''add'' (Some 1) world0)"
      and ?w3.0 = world0 and ?I3.0 = simple_manager and ?T3.0 = "''M''"
      and ?topic3.0 = "''chatter''" and ?q3.0 = "\<lparr>depth = 10\<rparr>" and ?a3.0 = 0
      and pub = "snd (projr (fst (create_publisher simple_manager ''M'' ''chatter''
                   \<lparr>depth = 10\<rparr> world0)))"
      and ?w3' = "snd (create_publisher simple_manager ''M'' ''chatter'' \<lparr>depth = 10\<rparr> world0)"]
  by (simp add: create_publisher_def create_subscription_internal_def
      setup_subscription_intra_process_def create_service_def create_client_def rmw_create_def
      rmw_get_error_string_safe_def make_shared_def get_sub_context_def
      get_message_type_support_handle_def get_service_type_support_handle_def group_in_node_def
      add_subscription_def add_service_def add_client_def groups_holding_def member_ptrs_def
      target_group_def world_ok_def lock_def Let_def
      world0_def node0_def group0_def rmw_all_ok_def simple_manager_def)

subsection \<open>A group that is not registered with the node\<close>

lemma create_subscription_internal_unregistered:
  "\<not> group_in_node (node w) g \<Longrightarrow>
   isl (fst (create_subscription_internal I T topic q cb (Some g) il ms w)) \<and>
   groups (snd (create_subscription_internal I T topic q cb (Some g) il ms w)) = groups w"
  apply (simp add: create_subscription_internal_def make_shared_def Let_def
      split: prod.splits if_splits option.splits sum.splits)
  apply (auto dest!: setup_subscription_intra_process_frame)
  done

lemma create_subscription_internal_unregistered_what:
  "\<not> group_in_node (node w) g \<Longrightarrow> \<not> use_intra_process_comms (node w) \<Longrightarrow>
   answer (rmw w) (calls (rmw w))
     (rmw_create_subscription (node_handle (node w)) (message_type_support T) topic q il) = Inr h \<Longrightarrow>
   fst (create_subscription_internal I T topic q cb (Some g) il ms w) =
     Inl (runtime_error ''Cannot create subscription, group not in node.'')"
  by (simp add: create_subscription_internal_def make_shared_def Let_def rmw_create_def
      get_message_type_support_handle_def)

lemma create_service_unregistered:
  "\<not> group_in_node (node w) g \<Longrightarrow>
   isl (fst (create_service T n cb (Some g) w)) \<and>
   groups (snd (create_service T n cb (Some g) w)) = groups w"
  by (simp add: create_service_def make_shared_def Let_def split: prod.splits)

lemma create_service_unregistered_what:
  "\<not> group_in_node (node w) g \<Longrightarrow>
   answer (rmw w) (calls (rmw w))
     (rmw_create_service (node_handle (node w)) (service_type_support T) n) = Inr h \<Longrightarrow>
   fst (create_service T n cb (Some g) w) =
     Inl (runtime_error ''Cannot create service, group not in node.'')"
  by (simp add: create_service_def make_shared_def Let_def rmw_create_def
      get_service_type_support_handle_def)

lemma create_client_unregistered:
  "\<not> group_in_node (node w) g \<Longrightarrow>
   isl (fst (create_client T n (Some g) w)) \<and>
   groups (snd (create_client T n (Some g) w)) = groups w"
  by (simp add: create_client_def make_shared_def Let_def split: prod.splits)

lemma create_client_unregistered_what:
  "\<not> group_in_node (node w) g \<Longrightarrow>
   answer (rmw w) (calls (rmw w))
     (rmw_create_client (node_handle (node w)) (service_type_support T) n) = Inr h \<Longrightarrow>
   fst (create_client T n (Some g) w) =
     Inl (runtime_error ''Cannot create client, group not in node.'')"
  by (simp add: create_client_def make_shared_def Let_def rmw_create_def
      get_service_type_support_handle_def)

text \<open>
  Claim C6. When \<open>create_subscription_internal\<close>, \<open>create_service\<close> or \<open>create_client\<close>
  is given a group that is not registered with the node, it throws, and every callback
  group is as it was before the call. When the middleware has created the handle (and, for
  a subscription, intra-process communication is off, so that nothing else can throw
  first), the error is the "Cannot create ..., group not in node." of that operation.
\<close>

theorem create_with_unregistered_group_fails:
  "(\<not> group_in_node (node w) g \<longrightarrow>
      isl (fst (create_subscription_internal I T topic q cb (Some g) il ms w)) \<and>
      groups (snd (create_subscription_internal I T topic q cb (Some g) il ms w)) = groups w \<and>
      (\<not> use_intra_process_comms (node w) \<and>
       answer (rmw w) (calls (rmw w))
         (rmw_create_subscription (node_handle (node w)) (message_type_support T) topic q il) = Inr h
       \<longrightarrow> fst (create_subscription_internal I T topic q cb (Some g) il ms w) =
             Inl (runtime_error ''Cannot create subscription, group not in node.''))) \<and>
   (\<not> group_in_node (node w1) g1 \<longrightarrow>
      isl (fst (create_service T1 n1 cb1 (Some g1) w1)) \<and>
      groups (snd (create_service T1 n1 cb1 (Some g1) w1)) = groups w1 \<and>
      (answer (rmw w1) (calls (rmw w1))
         (rmw_create_service (node_handle (node w1)) (service_type_support T1) n1) = Inr h1
       \<longrightarrow> fst (create_service T1 n1 cb1 (Some g1) w1) =
             Inl (runtime_error ''Cannot create service, group not in node.''))) \<and>
   (\<not> group_in_node (node w2) g2 \<longrightarrow>
      isl (fst (create_client T2 n2 (Some g2) w2)) \<and>
      groups (snd (create_client T2 n2 (Some g2) w2)) = groups w2 \<and>
      (answer (rmw w2) (calls (rmw w2))
         (rmw_create_client (node_handle (node w2)) (service_type_support T2) n2) = Inr h2
       \<longrightarrow> fst (create_client T2 n2 (Some g2) w2) =
             Inl (runtime_error ''Cannot create client, group not in node.'')))"
  by (intro conjI impI)
     (simp_all add: create_subscription_internal_unregistered
        create_subscription_internal_unregistered_what create_service_unregistered
        create_service_unregistered_what create_client_unregistered
        create_client_unregistered_what)

text \<open>Claim C6 in the example world, with group 5, which the node does not know.\<close>

theorem create_with_unregistered_group_fails_witness:
  "fst (create_subscription_internal simple_manager ''M'' ''chatter'' \<lparr>depth = 10\<rparr> 0 (Some 5)
          False None (world0\<lparr>node := node0\<lparr>use_intra_process_comms := False\<rparr>\<rparr>)) =
     Inl (runtime_error ''Cannot create subscription, group not in node.'') \<and>
   isl (fst (create_subscription_internal simple_manager ''M'' ''chatter'' \<lparr>depth = 10\<rparr> 0 (Some 5)
          False None world0)) \<and>
   groups (snd (create_subscription_internal simple_manager ''M'' ''chatter'' \<lparr>depth = 10\<rparr> 0
          (Some 5) False None world0)) = groups world0 \<and>
   fst (create_service ''S'' ''add'' 0 (Some 5) world0) =
     Inl (runtime_error ''Cannot create service, group not in node.'') \<and>
   groups (snd (create_service ''S'' ''add'' 0 (Some 5) world0)) = groups world0 \<and>
   fst (create_client ''S'' ''add'' (Some 5) world0) =
     Inl (runtime_error ''Cannot create client, group not in node.'') \<and>
   groups (snd (create_client ''S'' ''add'' (Some 5) world0)) = groups world0"
  using create_with_unregistered_group_fails [where w = "world0\<lparr>node := node0\<lparr>use_intra_process_comms := False\<rparr>\<rparr>"
      and g = 5 and I = simple_manager and T = "''M''" and topic = "''chatter''"
      and q = "\<lparr>depth = 10\<rparr>" and cb = 0 and il = False and ms = None and h = 0
      and ?w1.0 = world0 and ?g1.0 = 5 and ?T1.0 = "''S''" and ?n1.0 = "''add''" and ?cb1.0 = 0
      and ?h1.0 = 0
      and ?w2.0 = world0 and ?g2.0 = 5 and ?T2.0 = "''S''" and ?n2.0 = "''add''" and ?h2.0 = 0]
    create_with_unregistered_group_fails [where w = world0
      and g = 5 and I = simple_manager and T = "''M''" and topic = "''chatter''"
      and q = "\<lparr>depth = 10\<rparr>" and cb = 0 and il = False and ms = None and h = 0
      and ?w1.0 = world0 and ?g1.0 = 5 and ?T1.0 = "''S''" and ?n1.0 = "''add''" and ?cb1.0 = 0
      and ?h1.0 = 0
      and ?w2.0 = world0 and ?g2.0 = 5 and ?T2.0 = "''S''" and ?n2.0 = "''add''" and ?h2.0 = 0]
  by (simp add: group_in_node_def world0_def node0_def group0_def rmw_all_ok_def simple_manager_def)

subsection \<open>The intra-process callbacks\<close>

text \<open>
  Claim C7. When the weak pointer to the manager no longer locks, each of the three
  callbacks (the publisher's store-hook, the subscription's take-hook and its publisher
  check) throws its "... called after destruction of intra process manager" error, and
  changes nothing.
\<close>

theorem callbacks_fail_after_manager_destroyed:
  "lock weak_ipm w = None \<longrightarrow>
     shared_publish_callback I weak_ipm T publisher_id msg ti w =
       (Inl (runtime_error
          ''intra process publish called after destruction of intra process manager''), w) \<and>
     get_message_callback I weak_ipm T publisher_id message_sequence subscription_id w =
       (Inl (runtime_error
          ''intra process take called after destruction of intra process manager''), w) \<and>
     matches_any_publisher_callback I weak_ipm sender_gid w =
       (Inl (runtime_error
          ''intra process publisher check called after destruction of intra process manager''), w)"
  by (simp add: shared_publish_callback_def get_message_callback_def
      matches_any_publisher_callback_def)

text \<open>Claim C7 in the example world after its manager, the one the callbacks of the
  publisher created there point to, was destroyed.\<close>

theorem callbacks_fail_after_manager_destroyed_witness:
  "call_store_hook simple_manager (shared_publish_callback_closure 1 ''M'') 0 (Some 5)
       (typeid ''M'') world_torn_down =
     (Inl (runtime_error
        ''intra process publish called after destruction of intra process manager''),
      world_torn_down) \<and>
   call_take_hook simple_manager (get_message_callback_closure 1 ''M'') 0 0 1 world_torn_down =
     (Inl (runtime_error
        ''intra process take called after destruction of intra process manager''),
      world_torn_down) \<and>
   call_matches_hook simple_manager (matches_any_publisher_callback_closure 1) 3
       world_torn_down =
     (Inl (runtime_error
        ''intra process publisher check called after destruction of intra process manager''),
      world_torn_down)"
  using callbacks_fail_after_manager_destroyed [where weak_ipm = 1 and w = world_torn_down
      and I = simple_manager and T = "''M''" and publisher_id = 0 and msg = "Some 5"
      and ti = "typeid ''M''" and message_sequence = 0 and subscription_id = 1 and sender_gid = 3]
  by (simp add: lock_def world_torn_down_def)

text \<open>
  Claim C8 says that a publish whose message type does not match always fails with the
  error that names both types. The checks for a destroyed manager and for a null pointer
  come first: with a null pointer, or with the manager gone, a mismatching publish fails
  with the error of that earlier check, which names no type.
\<close>

theorem publish_type_mismatch_counterexample:
  "fst (shared_publish_callback simple_manager 1 ''M'' 0 None (typeid ''N'')
          (world0\<lparr>sub_contexts := Some (1, ipm_new simple_manager)\<rparr>)) =
     Inl (runtime_error ''cannot publisher msg which is a null pointer'') \<and>
   fst (shared_publish_callback simple_manager 1 ''M'' 0 (Some 5) (typeid ''N'') world0) =
     Inl (runtime_error
       ''intra process publish called after destruction of intra process manager'')"
  by (simp add: shared_publish_callback_def lock_def world0_def)

text \<open>
  Claim C8, amended. Whenever the type passed to the publisher's store-hook differs from
  the publisher's \<open>MessageT\<close>, the publish fails with an error and nothing is stored: the
  world, the manager's state in it, is left as it was. When the manager is alive and the
  message pointer is not null, the error is the one that names both types, the published
  one first.
\<close>

theorem publish_type_mismatch_fails:
  "typeid T \<noteq> ti \<longrightarrow>
     isl (fst (shared_publish_callback I weak_ipm T publisher_id msg ti w)) \<and>
     snd (shared_publish_callback I weak_ipm T publisher_id msg ti w) = w \<and>
     (lock weak_ipm w = Some ipm \<and> msg = Some p \<longrightarrow>
        fst (shared_publish_callback I weak_ipm T publisher_id msg ti w) =
          Inl (runtime_error
            (''published type '' @ [CHR 0x27] @ name ti @ [CHR 0x27] @
             '' is incompatible from the publisher type '' @ [CHR 0x27] @ T @ [CHR 0x27])))"
  by (simp add: shared_publish_callback_def Let_def split: option.splits)

text \<open>The amended claim at a live manager, a message at address 5, a publisher of \<open>M\<close>
  and a message of type \<open>N\<close>.\<close>

theorem publish_type_mismatch_fails_witness:
  "fst (shared_publish_callback simple_manager 1 ''M'' 0 (Some 5) (typeid ''N'')
          (world0\<lparr>sub_contexts := Some (1, ipm_new simple_manager)\<rparr>)) =
     Inl (runtime_error
       (''published type '' @ [CHR 0x27] @ ''N'' @ [CHR 0x27] @
        '' is incompatible from the publisher type '' @ [CHR 0x27] @ ''M'' @ [CHR 0x27])) \<and>
   snd (shared_publish_callback simple_manager 1 ''M'' 0 (Some 5) (typeid ''N'')
          (world0\<lparr>sub_contexts := Some (1, ipm_new simple_manager)\<rparr>)) =
     world0\<lparr>sub_contexts := Some (1, ipm_new simple_manager)\<rparr>"
  using publish_type_mismatch_fails [where T = "''M''" and ti = "typeid ''N''"
      and I = simple_manager and weak_ipm = 1 and publisher_id = 0 and msg = "Some 5"
      and w = "world0\<lparr>sub_contexts := Some (1, ipm_new simple_manager)\<rparr>"
      and ipm = "ipm_new simple_manager" and p = 5]
  by (simp add: lock_def world0_def)

text \<open>
  Claim C10. Called with a null message pointer, the publisher's store-hook throws and
  leaves the world as it was, whatever type it is given: the error is the one for a null
  pointer, or, when the manager is gone, the one for the destroyed manager, which is checked
  first. Neither the type check nor \<open>store_intra_process_message\<close> is reached.
\<close>

theorem publish_null_message_fails:
  "shared_publish_callback I weak_ipm T publisher_id None ti w =
     (Inl (runtime_error
        (if lock weak_ipm w = None
         then ''intra process publish called after destruction of intra process manager''
         else ''cannot publisher msg which is a null pointer'')), w)"
  by (simp add: shared_publish_callback_def split: option.splits)

subsection \<open>The companion topic\<close>

lemma create_publisher_calls:
  "use_intra_process_comms (node w) \<Longrightarrow> fst (create_publisher I T topic q w) = Inr p \<Longrightarrow>
   calls (rmw (snd (create_publisher I T topic q w))) =
     calls (rmw w) @
       [rmw_create_publisher (node_handle (node w)) (message_type_support T) topic q,
        rmw_create_publisher (node_handle (node w)) (ipm_ts (node w)) (topic @ ''__intra'') q]"
  apply (simp add: create_publisher_def make_shared_def Let_def get_message_type_support_handle_def
      split: prod.splits if_splits sum.splits)
  apply (auto dest!: get_sub_context_frame simp: rmw_create_def split: sum.splits)
  done

lemma create_subscription_internal_calls:
  "use_intra_process_comms (node w) \<Longrightarrow>
   fst (create_subscription_internal I T topic q cb grp il ms w) = Inr s \<Longrightarrow>
   calls (rmw (snd (create_subscription_internal I T topic q cb grp il ms w))) =
     calls (rmw w) @
       [rmw_create_subscription (node_handle (node w)) (message_type_support T) topic q il,
        rmw_create_subscription (node_handle (node w)) (ipm_ts (node w)) (topic @ ''__intra'') q
          False]"
  apply (simp add: create_subscription_internal_def make_shared_def Let_def
      get_message_type_support_handle_def
      split: prod.splits if_splits sum.splits option.splits)
  apply (auto dest!: setup_subscription_intra_process_frame simp: rmw_create_def split: sum.splits)
  done

text \<open>
  What the create operations ask of the middleware. On a node with intra-process
  communication on, a create that returns a
  publisher has made exactly two middleware calls: \<open>rmw_create_publisher\<close> on the topic
  with the type support of \<open>MessageT\<close>, and \<open>rmw_create_publisher\<close> on the topic with
  \<open>__intra\<close> appended, with the node's \<open>ipm_ts\<close> (the type support of the intra-process
  message) and the same QoS profile; the publisher holds the handle of the second call,
  which is not null. A create that returns a subscription has made the two
  \<open>rmw_create_subscription\<close> calls in the same way, the second one with
  \<open>ignore_local_publications\<close> false; nothing is said there about the handle that the
  second call returned.
\<close>

lemma intra_companion_created:
  "(use_intra_process_comms (node w) \<and> fst (create_publisher I T topic q w) = Inr p \<longrightarrow>
      calls (rmw (snd (create_publisher I T topic q w))) =
        calls (rmw w) @
          [rmw_create_publisher (node_handle (node w)) (message_type_support T) topic q,
           rmw_create_publisher (node_handle (node w)) (ipm_ts (node w)) (topic @ ''__intra'') q] \<and>
      (case publisher_intra_process (snd p) of
         None \<Rightarrow> False
       | Some x \<Rightarrow> snd (snd x) \<noteq> None)) \<and>
   (use_intra_process_comms (node w1) \<and>
    fst (create_subscription_internal I1 T1 topic1 q1 cb grp il ms w1) = Inr s \<longrightarrow>
      calls (rmw (snd (create_subscription_internal I1 T1 topic1 q1 cb grp il ms w1))) =
        calls (rmw w1) @
          [rmw_create_subscription (node_handle (node w1)) (message_type_support T1) topic1 q1 il,
           rmw_create_subscription (node_handle (node w1)) (ipm_ts (node w1))
             (topic1 @ ''__intra'') q1 False])"
proof (intro conjI impI)
  assume h: "use_intra_process_comms (node w) \<and> fst (create_publisher I T topic q w) = Inr p"
  from h show "calls (rmw (snd (create_publisher I T topic q w))) =
      calls (rmw w) @
        [rmw_create_publisher (node_handle (node w)) (message_type_support T) topic q,
         rmw_create_publisher (node_handle (node w)) (ipm_ts (node w)) (topic @ ''__intra'') q]"
    by (simp add: create_publisher_calls)
  from h show "case publisher_intra_process (snd p) of
      None \<Rightarrow> False
    | Some x \<Rightarrow> snd (snd x) \<noteq> None"
    by (intro create_publisher_intra_handle [of w I T topic q p]) simp_all
next
  assume "use_intra_process_comms (node w1) \<and>
    fst (create_subscription_internal I1 T1 topic1 q1 cb grp il ms w1) = Inr s"
  then show "calls (rmw (snd (create_subscription_internal I1 T1 topic1 q1 cb grp il ms w1))) =
      calls (rmw w1) @
        [rmw_create_subscription (node_handle (node w1)) (message_type_support T1) topic1 q1 il,
         rmw_create_subscription (node_handle (node w1)) (ipm_ts (node w1))
           (topic1 @ ''__intra'') q1 False]"
    by (simp add: create_subscription_internal_calls)
qed

text \<open>The two calls in the example world, on the topic \<open>chatter\<close>.\<close>

lemma intra_companion_created_example:
  "calls (rmw (snd (create_publisher simple_manager ''M'' ''chatter'' \<lparr>depth = 10\<rparr> world0))) =
     [rmw_create_publisher (Some 7) (message_type_support ''M'') ''chatter'' \<lparr>depth = 10\<rparr>,
      rmw_create_publisher (Some 7)
        (message_type_support ''rcl_interfaces::msg::IntraProcessMessage'') ''chatter__intra''
        \<lparr>depth = 10\<rparr>] \<and>
   calls (rmw (snd (create_subscription_internal simple_manager ''M'' ''chatter'' \<lparr>depth = 10\<rparr>
                      0 None True None world0))) =
     [rmw_create_subscription (Some 7) (message_type_support ''M'') ''chatter'' \<lparr>depth = 10\<rparr> True,
      rmw_create_subscription (Some 7)
        (message_type_support ''rcl_interfaces::msg::IntraProcessMessage'') ''chatter__intra''
        \<lparr>depth = 10\<rparr> False]"
  using intra_companion_created [where w = world0 and I = simple_manager and T = "''M''"
      and topic = "''chatter''" and q = "\<lparr>depth = 10\<rparr>"
      and p = "projr (fst (create_publisher simple_manager ''M'' ''chatter'' \<lparr>depth = 10\<rparr> world0))"
      and ?w1.0 = world0 and ?I1.0 = simple_manager and ?T1.0 = "''M''"
      and ?topic1.0 = "''chatter''" and ?q1.0 = "\<lparr>depth = 10\<rparr>" and cb = 0 and grp = None
      and il = True and ms = None
      and s = "projr (fst (create_subscription_internal simple_manager ''M'' ''chatter''
                 \<lparr>depth = 10\<rparr> 0 None True None world0))"]
  by (simp add: create_publisher_def create_subscription_internal_def
      setup_subscription_intra_process_def create_service_def create_client_def rmw_create_def
      rmw_get_error_string_safe_def make_shared_def get_sub_context_def
      get_message_type_support_handle_def get_service_type_support_handle_def group_in_node_def
      add_subscription_def add_service_def add_client_def groups_holding_def member_ptrs_def
      target_group_def world_ok_def lock_def Let_def
      world0_def node0_def group0_def rmw_all_ok_def simple_manager_def)

subsection \<open>A middleware that fails to create a handle\<close>

text \<open>When the middleware returns a null pointer for the handle of a publisher, a
  subscription, a client or a service, or for the companion handle of a publisher, the
  create operation throws the "could not create ..." error with the middleware's reason.\<close>

lemma create_fails_on_null_handle:
  "(answer (rmw w) (calls (rmw w))
      (rmw_create_publisher (node_handle (node w)) (message_type_support T) topic q) = Inl reason
    \<longrightarrow> fst (create_publisher I T topic q w) =
          Inl (runtime_error (''could not create publisher: '' @ reason))) \<and>
   (use_intra_process_comms (node w) \<and>
    answer (rmw w) (calls (rmw w))
      (rmw_create_publisher (node_handle (node w)) (message_type_support T) topic q) = Inr h \<and>
    answer (rmw w)
      (calls (rmw w) @
         [rmw_create_publisher (node_handle (node w)) (message_type_support T) topic q])
      (rmw_create_publisher (node_handle (node w)) (ipm_ts (node w)) (topic @ ''__intra'') q)
      = Inl reason
    \<longrightarrow> fst (create_publisher I T topic q w) =
          Inl (runtime_error (''could not create intra process publisher: '' @ reason))) \<and>
   (answer (rmw w) (calls (rmw w))
      (rmw_create_subscription (node_handle (node w)) (message_type_support T) topic q il)
      = Inl reason
    \<longrightarrow> fst (create_subscription_internal I T topic q cb grp il ms w) =
          Inl (runtime_error (''could not create subscription: '' @ reason))) \<and>
   (answer (rmw w) (calls (rmw w))
      (rmw_create_client (node_handle (node w)) (service_type_support T) topic) = Inl reason
    \<longrightarrow> fst (create_client T topic grp w) =
          Inl (runtime_error (''could not create client: '' @ reason))) \<and>
   (answer (rmw w) (calls (rmw w))
      (rmw_create_service (node_handle (node w)) (service_type_support T) topic) = Inl reason
    \<longrightarrow> fst (create_service T topic cb grp w) =
          Inl (runtime_error (''could not create service: '' @ reason)))"
  by (simp add: create_publisher_def create_subscription_internal_def create_client_def
      create_service_def rmw_create_def rmw_get_error_string_safe_def make_shared_def Let_def
      get_message_type_support_handle_def get_service_type_support_handle_def)

text \<open>
  Claim C1 asks the same of the companion handle of a subscription. There the test after
  the second \<open>rmw_create_subscription\<close> reads the first handle, which is known not to be
  null: in the example world with a middleware that fails the second call,
  \<open>create_subscription_internal\<close> returns a subscription whose intra-process handle is
  the null pointer.
\<close>

theorem create_subscription_null_intra_handle:
  "fst (create_subscription_internal simple_manager ''M'' ''chatter'' \<lparr>depth = 10\<rparr> 0 None False None
          (world0\<lparr>rmw := rmw_second_fails\<rparr>)) =
   Inr (0, \<lparr> subscription_node_handle = Some 7, sub_handle = Some 0,
             subscription_topic = ''chatter'', ignore_local_publications = False,
             any_callback = 0, memory_strategy = create_default ''M'',
             subscription_intra_process =
               Some (0, None, get_message_callback_closure 1 ''M'',
                     matches_any_publisher_callback_closure 1) \<rparr>)"
  by (simp add: create_subscription_internal_def setup_subscription_intra_process_def
      rmw_create_def make_shared_def get_sub_context_def
      get_message_type_support_handle_def add_subscription_def world0_def node0_def group0_def
      rmw_second_fails_def simple_manager_def Let_def)

text \<open>
  Claim C9 says that a subscription created on a node with intra-process communication on
  has a companion middleware subscription on the topic with \<open>__intra\<close> appended, of the
  intra-process message type. For a publisher this holds (\<open>intra_companion_created\<close>: the
  publisher holds the non-null handle of that call). For a subscription the call is made
  with that topic and type, but its result is never tested: in the example world with a
  middleware that fails the second call, \<open>create_subscription_internal\<close> returns a
  subscription, the log shows the call on \<open>chatter__intra\<close>, the middleware has answered
  it with a null pointer and the reason "out of resources", and the handle handed to
  \<open>setup_intra_process\<close> is that null pointer: the subscription exists and its companion
  does not.
\<close>

theorem subscription_without_companion:
  "\<not> isl (fst (create_subscription_internal simple_manager ''M'' ''chatter'' \<lparr>depth = 10\<rparr> 0
               None False None (world0\<lparr>rmw := rmw_second_fails\<rparr>))) \<and>
   calls (rmw (snd (create_subscription_internal simple_manager ''M'' ''chatter'' \<lparr>depth = 10\<rparr>
                      0 None False None (world0\<lparr>rmw := rmw_second_fails\<rparr>)))) =
     [rmw_create_subscription (Some 7) (message_type_support ''M'') ''chatter'' \<lparr>depth = 10\<rparr>
        False,
      rmw_create_subscription (Some 7)
        (message_type_support ''rcl_interfaces::msg::IntraProcessMessage'') ''chatter__intra''
        \<lparr>depth = 10\<rparr> False] \<and>
   error_state (rmw (snd (create_subscription_internal simple_manager ''M'' ''chatter''
                            \<lparr>depth = 10\<rparr> 0 None False None
                            (world0\<lparr>rmw := rmw_second_fails\<rparr>)))) = ''out of resources'' \<and>
   map_option (\<lambda>x. fst (snd x))
     (subscription_intra_process
        (snd (projr (fst (create_subscription_internal simple_manager ''M'' ''chatter''
                            \<lparr>depth = 10\<rparr> 0 None False None
                            (world0\<lparr>rmw := rmw_second_fails\<rparr>)))))) = Some None \<and>
   subscription_ptrs
     (groups (snd (create_subscription_internal simple_manager ''M'' ''chatter'' \<lparr>depth = 10\<rparr>
                     0 None False None (world0\<lparr>rmw := rmw_second_fails\<rparr>))) 0) = [0]"
  by (simp add: create_subscription_internal_def setup_subscription_intra_process_def
      rmw_create_def make_shared_def get_sub_context_def get_message_type_support_handle_def
      add_subscription_def world0_def node0_def group0_def rmw_second_fails_def
      simple_manager_def Let_def)

end
